theory Spec2Isabelle
  imports Main "HOL-Library.Word"
begin

unbundle bit_operations_syntax

section \<open>Array builders of cpp/src/arrow/builder.h\<close>

text \<open>
  A shallow embedding of the inline member functions of the array builders declared in
  \<^verbatim>\<open>cpp/src/arrow/builder.h\<close>. Every builder is a record of the data members the
  modelled functions read or write; a member function becomes a function from the state of
  the builder to the new state, paired with the \<^verbatim>\<open>Status\<close> it returns where the C++
  function returns one. A C++ data member \<^verbatim>\<open>name_\<close> is the record field \<open>name_m\<close>
  (an Isabelle name cannot end in an underscore).

  The counters \<^verbatim>\<open>length_\<close>, \<^verbatim>\<open>null_count_\<close> and \<^verbatim>\<open>capacity_\<close> are
  \<^verbatim>\<open>int64_t\<close>; they are modelled as \<open>int\<close>. Signed overflow is undefined in C++ and
  is outside the model: the counters count elements of buffers held in memory.
  Buffers are lists of bytes (\<open>8 word\<close>); the list holds the allocated bytes, and an access
  beyond it (undefined in C++) is excluded by the hypotheses of the theorems.
\<close>

subsection \<open>Status\<close>

text \<open>
  Modelled from the spec: \<^verbatim>\<open>Status\<close> is declared in \<^verbatim>\<open>arrow/status.h\<close>, which is not
  among the sources. A status is OK or an error of one of the kinds of section 7 of the
  specification, with its message.
\<close>

datatype Status =
    OK
  | Invalid string
  | OutOfMemory string
  | NotImplemented string
  | TypeError string

fun is_Invalid :: "Status \<Rightarrow> bool" where
  "is_Invalid (Invalid msg) = True"
| "is_Invalid st = False"

type_synonym uint8_t = "8 word"

subsection \<open>Bit utilities\<close>

text \<open>
  The namespace \<^verbatim>\<open>BitUtil\<close> is declared in \<^verbatim>\<open>arrow/util/bit-util.h\<close>, which is not
  among the sources; the specification treats the bit-manipulation primitives as external
  (section 1). A bitmap is a packed bit vector with one bit per element (glossary): bit
  \<open>i\<close> is bit \<open>i mod 8\<close> of byte \<open>i div 8\<close>, the least significant bit first.
\<close>

text \<open>
  Modelled from the spec: \<^verbatim>\<open>BitUtil::kBitmask\<close> (bit-util.h, not among the sources),
  the table of the bytes with the single bit \<open>i\<close> set, for \<open>i\<close> from 0 to 7.
\<close>

definition kBitmask :: "uint8_t list" where
  "kBitmask = [1, 2, 4, 8, 16, 32, 64, 128]"

text \<open>
  Modelled from the spec: \<^verbatim>\<open>BitUtil::kFlippedBitmask\<close> (bit-util.h, not among the
  sources), the table of the bytes with every bit but bit \<open>i\<close> set.
\<close>

definition kFlippedBitmask :: "uint8_t list" where
  "kFlippedBitmask = [254, 253, 251, 247, 239, 223, 191, 127]"

text \<open>
  Modelled from the spec: \<^verbatim>\<open>BitUtil::SetBit(bits, i)\<close> (bit-util.h, not among the
  sources) sets bit \<open>i\<close> of the bitmap at \<^verbatim>\<open>bits\<close>.
\<close>

definition SetBit :: "uint8_t list \<Rightarrow> nat \<Rightarrow> uint8_t list" where
  "SetBit bits i = bits[i div 8 := (bits ! (i div 8)) OR (kBitmask ! (i mod 8))]"

text \<open>
  Modelled from the spec: \<^verbatim>\<open>BitUtil::ClearBit(bits, i)\<close> (bit-util.h, not among the
  sources) clears bit \<open>i\<close> of the bitmap at \<^verbatim>\<open>bits\<close>.
\<close>

definition ClearBit :: "uint8_t list \<Rightarrow> nat \<Rightarrow> uint8_t list" where
  "ClearBit bits i = bits[i div 8 := (bits ! (i div 8)) AND (kFlippedBitmask ! (i mod 8))]"

text \<open>
  Modelled from the spec: \<^verbatim>\<open>BitUtil::GetBit(bits, i)\<close> (bit-util.h, not among the
  sources) reads bit \<open>i\<close> of the bitmap at \<^verbatim>\<open>bits\<close>.
\<close>

definition GetBit :: "uint8_t list \<Rightarrow> nat \<Rightarrow> bool" where
  "GetBit bits i = bit (bits ! (i div 8)) (i mod 8)"

subsection \<open>ArrayBuilder\<close>

text \<open>
  The data members of \<^verbatim>\<open>ArrayBuilder\<close> that the inline functions use.
  \<open>null_bitmap_data_m\<close> is the memory \<^verbatim>\<open>null_bitmap_data_\<close> points to: the empty list
  when the pointer is \<^verbatim>\<open>NULLPTR\<close> (no bitmap allocated).
\<close>

record ArrayBuilder =
  null_bitmap_data_m :: "uint8_t list"
  null_count_m :: int
  length_m :: int
  capacity_m :: int

text \<open>The constructor (builder.h, lines 65-72): no bitmap, all counters 0.\<close>

definition ArrayBuilder_ctor :: ArrayBuilder where
  "ArrayBuilder_ctor =
     \<lparr>null_bitmap_data_m = [], null_count_m = 0, length_m = 0, capacity_m = 0\<rparr>"

text \<open>\<^verbatim>\<open>ArrayBuilder::CheckCapacity\<close> (builder.h, lines 199-207).\<close>

definition CheckCapacity :: "int \<Rightarrow> int \<Rightarrow> Status" where
  "CheckCapacity new_capacity old_capacity =
     (if new_capacity < 0 then Invalid ''Resize capacity must be positive''
      else if new_capacity < old_capacity then Invalid ''Resize cannot downsize''
      else OK)"

text \<open>
  Modelled from the spec: \<^verbatim>\<open>ArrayBuilder::Resize\<close> is defined in builder.cc, which is
  not among the sources. Section 4.1: "Resize(new_capacity): reallocates data buffer(s) and
  the null bitmap (if allocated) to hold new_capacity elements. Fails with Invalid on
  negative values or any attempt to reduce capacity." The check is \<open>CheckCapacity\<close> of the
  header; the reallocation through the memory pool is the parameter \<open>realloc\<close>, which may
  fail (section 6.1); on success the builder holds \<open>capacity\<close> elements, on failure it is
  left as it was (section 7).
\<close>

definition Resize ::
  "(int \<Rightarrow> 'a ArrayBuilder_scheme \<Rightarrow> Status \<times> 'a ArrayBuilder_scheme) \<Rightarrow>
   int \<Rightarrow> 'a ArrayBuilder_scheme \<Rightarrow> Status \<times> 'a ArrayBuilder_scheme" where
  "Resize realloc capacity s =
     (let st = CheckCapacity capacity (capacity_m s) in
      if st \<noteq> OK then (st, s)
      else (case realloc capacity s of
              (st', s') \<Rightarrow>
                if st' \<noteq> OK then (st', s) else (OK, s'\<lparr>capacity_m := capacity\<rparr>)))"

text \<open>
  Modelled from the spec: \<^verbatim>\<open>ArrayBuilder::Reserve\<close> is declared at builder.h, line 103,
  and defined in builder.cc, which is not among the sources. Section 4.1: "Reserve(additional):
  ensures capacity \<open>\<ge>\<close> length + additional. If not, computes a new capacity as the next
  power of two \<open>\<ge>\<close> required, floor-clamped at 32, and delegates to Resize. Idempotent when
  already large enough." \<open>NextPower2\<close> is the least power of two, among those up to
  \<open>2 ^ 63\<close>, that is not less than its argument.
\<close>

definition NextPower2 :: "int \<Rightarrow> int" where
  "NextPower2 n = hd (filter (\<lambda>p. n \<le> p) (map (\<lambda>k. 2 ^ k) [0..<64]))"

definition ArrayBuilder_Reserve ::
  "(int \<Rightarrow> 'a ArrayBuilder_scheme \<Rightarrow> Status \<times> 'a ArrayBuilder_scheme) \<Rightarrow>
   int \<Rightarrow> 'a ArrayBuilder_scheme \<Rightarrow> Status \<times> 'a ArrayBuilder_scheme" where
  "ArrayBuilder_Reserve realloc additional_capacity s =
     (if length_m s + additional_capacity > capacity_m s
      then Resize realloc (max 32 (NextPower2 (length_m s + additional_capacity))) s
      else (OK, s))"

text \<open>
  Modelled from the spec: the reallocation through a memory pool that has no memory left.
  Section 6.1: "Failures surface as OutOfMemory."
\<close>

definition realloc_fails :: "'c \<Rightarrow> 's \<Rightarrow> Status \<times> 's" where
  "realloc_fails capacity s = (OutOfMemory ''malloc failed'', s)"

text \<open>
  The result \<open>res\<close> of an operation whose only fallible step returned \<open>r\<close>: when the
  step failed, the operation returned the status and the builder of the step
  (\<^verbatim>\<open>ARROW_RETURN_NOT_OK\<close>); when it did not, the operation returned OK.
\<close>

definition error_only_from :: "Status \<times> 's \<Rightarrow> Status \<times> 's \<Rightarrow> bool" where
  "error_only_from r res = (if fst r \<noteq> OK then res = r else fst res = OK)"

subsection \<open>NullBuilder\<close>

text \<open>
  \<^verbatim>\<open>NullBuilder\<close> (builder.h, lines 228-242) adds no data member. Its constructor is the
  one of \<^verbatim>\<open>ArrayBuilder\<close>. \<^verbatim>\<open>AppendNull\<close> is lines 233-237, \<^verbatim>\<open>Append(std::nullptr_t)\<close>
  is line 239; the only value of \<^verbatim>\<open>std::nullptr_t\<close> is modelled by \<open>unit\<close>.
\<close>

definition NullBuilder_AppendNull :: "ArrayBuilder \<Rightarrow> Status \<times> ArrayBuilder" where
  "NullBuilder_AppendNull s =
     (let s1 = s\<lparr>null_count_m := null_count_m s + 1\<rparr>;
          s2 = s1\<lparr>length_m := length_m s1 + 1\<rparr>
      in (OK, s2))"

definition NullBuilder_Append :: "unit \<Rightarrow> ArrayBuilder \<Rightarrow> Status \<times> ArrayBuilder" where
  "NullBuilder_Append v s = NullBuilder_AppendNull s"

text \<open>A sequence of appends to a \<^verbatim>\<open>NullBuilder\<close>, with the status of each call.\<close>

datatype NullBuilder_op = Call_AppendNull | Call_Append unit

fun NullBuilder_call :: "NullBuilder_op \<Rightarrow> ArrayBuilder \<Rightarrow> Status \<times> ArrayBuilder" where
  "NullBuilder_call Call_AppendNull s = NullBuilder_AppendNull s"
| "NullBuilder_call (Call_Append v) s = NullBuilder_Append v s"

fun NullBuilder_calls :: "NullBuilder_op list \<Rightarrow> ArrayBuilder \<Rightarrow> Status list \<times> ArrayBuilder" where
  "NullBuilder_calls [] s = ([], s)"
| "NullBuilder_calls (c # cs) s =
     (case NullBuilder_call c s of
        (st, s') \<Rightarrow> (case NullBuilder_calls cs s' of (sts, s'') \<Rightarrow> (st # sts, s'')))"

subsection \<open>Appending to the null bitmap\<close>

text \<open>
  \<^verbatim>\<open>ArrayBuilder::UnsafeAppendToBitmap(bool)\<close> (builder.h, lines 147-154) and
  \<^verbatim>\<open>ArrayBuilder::UnsafeAppendNull\<close> (line 144). The index \<^verbatim>\<open>length_\<close> is not
  negative where the function is used; the model converts it with \<open>nat\<close>.
\<close>

definition UnsafeAppendToBitmap :: "bool \<Rightarrow> 'a ArrayBuilder_scheme \<Rightarrow> 'a ArrayBuilder_scheme" where
  "UnsafeAppendToBitmap is_valid s =
     (let s1 = (if is_valid
                then s\<lparr>null_bitmap_data_m := SetBit (null_bitmap_data_m s) (nat (length_m s))\<rparr>
                else s\<lparr>null_count_m := null_count_m s + 1\<rparr>)
      in s1\<lparr>length_m := length_m s1 + 1\<rparr>)"

definition UnsafeAppendNull :: "'a ArrayBuilder_scheme \<Rightarrow> 'a ArrayBuilder_scheme" where
  "UnsafeAppendNull s = UnsafeAppendToBitmap False s"

text \<open>
  The loop of \<^verbatim>\<open>UnsafeAppendToBitmap(const IterType& begin, const IterType& end)\<close>
  (builder.h, lines 162-179). The range \<^verbatim>\<open>[begin, end)\<close> is the list of the values
  \<^verbatim>\<open>*iter\<close>, read as booleans. The loop state is
  (\<^verbatim>\<open>byte_offset\<close>, \<^verbatim>\<open>bit_offset\<close>, \<^verbatim>\<open>bitset\<close>, the bitmap memory, \<^verbatim>\<open>null_count_\<close>).
\<close>

fun UnsafeAppendToBitmap_loop ::
  "bool list \<Rightarrow> nat \<times> nat \<times> uint8_t \<times> uint8_t list \<times> int \<Rightarrow>
   nat \<times> nat \<times> uint8_t \<times> uint8_t list \<times> int" where
  "UnsafeAppendToBitmap_loop [] st = st"
| "UnsafeAppendToBitmap_loop (v # vs) (byte_offset, bit_offset, bitset, bitmap, null_count) =
     (let (byte_offset1, bit_offset1, bitset1, bitmap1) =
            (if bit_offset = 8
             then (byte_offset + 1, 0,
                   (bitmap[byte_offset := bitset]) ! (byte_offset + 1),
                   bitmap[byte_offset := bitset])
             else (byte_offset, bit_offset, bitset, bitmap));
          (bitset2, null_count2) =
            (if v then (bitset1 OR (kBitmask ! bit_offset1), null_count)
             else (bitset1 AND (kFlippedBitmask ! bit_offset1), null_count + 1))
      in UnsafeAppendToBitmap_loop vs
           (byte_offset1, bit_offset1 + 1, bitset2, bitmap1, null_count2))"

text \<open>The whole function (builder.h, lines 156-186).\<close>

definition UnsafeAppendToBitmap_iter ::
  "bool list \<Rightarrow> 'a ArrayBuilder_scheme \<Rightarrow> 'a ArrayBuilder_scheme" where
  "UnsafeAppendToBitmap_iter vs s =
     (let byte_offset = nat (length_m s) div 8;
          bit_offset = nat (length_m s) mod 8;
          bitset = null_bitmap_data_m s ! byte_offset
      in case UnsafeAppendToBitmap_loop vs
                (byte_offset, bit_offset, bitset, null_bitmap_data_m s, null_count_m s) of
           (byte_offset', bit_offset', bitset', bitmap', null_count') \<Rightarrow>
             s\<lparr>null_bitmap_data_m :=
                   (if bit_offset' \<noteq> 0 then bitmap'[byte_offset' := bitset'] else bitmap'),
               null_count_m := null_count',
               length_m := length_m s + int (length vs)\<rparr>)"

text \<open>
  The number of zero bits of a bitmap at the positions 0 to \<open>n\<close> (exclusive); a bitmap of
  fewer than \<open>n\<close> bits has zero bits only at the positions it holds. Then the two parts of
  the invariant of the null bitmap: the null count is the number of zero bits below the
  length, and the bits from the length on, up to the end of the allocated bitmap, are zero
  (a null is appended by counting it, without writing its bit).
\<close>

definition count_zero_bits :: "uint8_t list \<Rightarrow> nat \<Rightarrow> nat" where
  "count_zero_bits bits n =
     length (filter (\<lambda>i. \<not> GetBit bits i) [0..<min n (8 * length bits)])"

definition null_count_is_zero_bits :: "'a ArrayBuilder_scheme \<Rightarrow> bool" where
  "null_count_is_zero_bits s =
     (0 \<le> length_m s \<and>
      null_count_m s = int (count_zero_bits (null_bitmap_data_m s) (nat (length_m s))))"

definition unused_bits_zero :: "'a ArrayBuilder_scheme \<Rightarrow> bool" where
  "unused_bits_zero s =
     list_all (\<lambda>i. \<not> GetBit (null_bitmap_data_m s) i)
       [nat (length_m s) ..< 8 * length (null_bitmap_data_m s)]"

definition bitmap_invariant :: "'a ArrayBuilder_scheme \<Rightarrow> bool" where
  "bitmap_invariant s = (null_count_is_zero_bits s \<and> unused_bits_zero s)"

text \<open>
  The bitmap holds the byte of the bit of index \<^verbatim>\<open>length_\<close> and has room for \<open>n\<close> more
  bits: an append of \<open>n\<close> bits stays within the allocated bitmap.
\<close>

definition has_room :: "nat \<Rightarrow> 'a ArrayBuilder_scheme \<Rightarrow> bool" where
  "has_room n s =
     (nat (length_m s) div 8 < length (null_bitmap_data_m s) \<and>
      nat (length_m s) + n \<le> 8 * length (null_bitmap_data_m s))"

text \<open>
  What an operation that takes the builder from \<open>s\<close> to \<open>s'\<close> has done when it has
  appended the validity bits \<open>vs\<close>: the invariant holds in \<open>s'\<close>, length has grown by the
  number of bits, null_count by the number of invalid ones, the bits are recorded at the
  positions from the old length on, and the bits below the old length are as they were.
\<close>

definition appended_bits ::
  "bool list \<Rightarrow> 'a ArrayBuilder_scheme \<Rightarrow> 'b ArrayBuilder_scheme \<Rightarrow> bool" where
  "appended_bits vs s s' =
     (bitmap_invariant s' \<and>
      length_m s' = length_m s + int (length vs) \<and>
      null_count_m s' = null_count_m s + int (length (filter Not vs)) \<and>
      length (null_bitmap_data_m s') = length (null_bitmap_data_m s) \<and>
      list_all (\<lambda>k. GetBit (null_bitmap_data_m s') (nat (length_m s) + k) = vs ! k)
        [0..<length vs] \<and>
      list_all (\<lambda>j. GetBit (null_bitmap_data_m s') j = GetBit (null_bitmap_data_m s) j)
        [0..<nat (length_m s)])"

text \<open>
  A call that returned the status and the builder \<open>r\<close> has succeeded and has appended the
  validity bits \<open>vs\<close> to the builder \<open>s\<close>.
\<close>

definition appended_OK ::
  "bool list \<Rightarrow> 'a ArrayBuilder_scheme \<Rightarrow> Status \<times> 'b ArrayBuilder_scheme \<Rightarrow> bool" where
  "appended_OK vs s r = (fst r = OK \<and> appended_bits vs s (snd r))"

text \<open>
  Modelled from the spec: \<^verbatim>\<open>ArrayBuilder::UnsafeAppendToBitmap(const uint8_t* valid_bytes,
  int64_t length)\<close> is declared at builder.h, lines 188-190, and defined in builder.cc,
  which is not among the sources. Its comment in the header and section 4.1 give its
  contract: every zero byte of \<^verbatim>\<open>valid_bytes\<close> is a null, every other byte is valid,
  and a null pointer (\<open>None\<close>) means that all \<^verbatim>\<open>length\<close> bits are valid. It is modelled
  by the iterator-based append of the header over these flags.
\<close>

definition UnsafeAppendToBitmap_bytes ::
  "uint8_t list option \<Rightarrow> int \<Rightarrow> 'a ArrayBuilder_scheme \<Rightarrow> 'a ArrayBuilder_scheme" where
  "UnsafeAppendToBitmap_bytes valid_bytes n s =
     UnsafeAppendToBitmap_iter
       (case valid_bytes of
          None \<Rightarrow> replicate (nat n) True
        | Some bytes \<Rightarrow> map (\<lambda>b. b \<noteq> 0) (take (nat n) bytes)) s"

subsection \<open>PrimitiveBuilder\<close>

text \<open>
  \<^verbatim>\<open>PrimitiveBuilder<Type>\<close> (builder.h, lines 244-374) adds the data buffer.
  \<open>raw_data_m\<close> is the memory \<^verbatim>\<open>raw_data_\<close> points to, in bytes; the element of index
  \<open>i\<close> is the \<^verbatim>\<open>sizeof(value_type)\<close> bytes from byte \<open>i * sizeof(value_type)\<close> on.
  \<^verbatim>\<open>sizeof(value_type)\<close> is a parameter of the functions that use it.
\<close>

record PrimitiveBuilder = ArrayBuilder +
  raw_data_m :: "uint8_t list"

text \<open>\<^verbatim>\<open>memset(dst, c, n)\<close> of the C library, on the memory \<open>mem\<close> from byte \<open>dst\<close> on.\<close>

definition memset :: "uint8_t list \<Rightarrow> nat \<Rightarrow> uint8_t \<Rightarrow> nat \<Rightarrow> uint8_t list" where
  "memset mem dst c n = take dst mem @ replicate n c @ drop (dst + n) mem"

text \<open>
  \<^verbatim>\<open>PrimitiveBuilder::AppendNull\<close> (builder.h, lines 266-271).
  \<^verbatim>\<open>ArrayBuilder::Reserve\<close> is defined in builder.cc, which is not among the sources:
  it is the parameter \<open>Reserve\<close>. \<^verbatim>\<open>ARROW_RETURN_NOT_OK\<close> returns the status of its
  argument at once when it is not OK.
\<close>

definition PrimitiveBuilder_AppendNull ::
  "nat \<Rightarrow> (int \<Rightarrow> PrimitiveBuilder \<Rightarrow> Status \<times> PrimitiveBuilder) \<Rightarrow>
   PrimitiveBuilder \<Rightarrow> Status \<times> PrimitiveBuilder" where
  "PrimitiveBuilder_AppendNull sizeof_value_type Reserve s =
     (case Reserve 1 s of
        (st, s1) \<Rightarrow>
          if st \<noteq> OK then (st, s1)
          else (let s2 = s1\<lparr>PrimitiveBuilder.raw_data_m :=
                            memset (PrimitiveBuilder.raw_data_m s1)
                              (nat (length_m s1) * sizeof_value_type) 0 sizeof_value_type\<rparr>
                in (OK, UnsafeAppendToBitmap False s2)))"

text \<open>
  The memory \<open>mem\<close> with \<open>bytes\<close> written from byte \<open>dst\<close> on: what an assignment through
  a typed pointer and \<^verbatim>\<open>std::copy\<close> to a typed pointer do to the bytes of the buffer.
  A write past the end of the memory is undefined in the source; the model puts the bytes
  there, as \<open>memset\<close> does.
\<close>

definition store :: "uint8_t list \<Rightarrow> nat \<Rightarrow> uint8_t list \<Rightarrow> uint8_t list" where
  "store mem dst bytes = take dst mem @ bytes @ drop (dst + length bytes) mem"

text \<open>
  \<^verbatim>\<open>PrimitiveBuilder::AppendValues(ValuesIter values_begin, ValuesIter values_end,
  ValidIter valid_begin)\<close> for a \<^verbatim>\<open>ValidIter\<close> that is not a pointer (builder.h, lines
  331-345). The range of values is the list of its elements, each given by its
  \<^verbatim>\<open>sizeof(value_type)\<close> bytes; \<open>valid\<close> is the sequence that \<^verbatim>\<open>valid_begin\<close>
  iterates over, of which \<^verbatim>\<open>std::next(valid_begin, length)\<close> delimits the first
  \<^verbatim>\<open>length\<close> elements.
\<close>

definition PrimitiveBuilder_AppendValues ::
  "nat \<Rightarrow> (int \<Rightarrow> PrimitiveBuilder \<Rightarrow> Status \<times> PrimitiveBuilder) \<Rightarrow>
   uint8_t list list \<Rightarrow> bool list \<Rightarrow> PrimitiveBuilder \<Rightarrow> Status \<times> PrimitiveBuilder" where
  "PrimitiveBuilder_AppendValues sizeof_value_type Reserve values valid s =
     (let n = int (length values) in
      case Reserve n s of
        (st, s1) \<Rightarrow>
          if st \<noteq> OK then (st, s1)
          else (let s2 = s1\<lparr>PrimitiveBuilder.raw_data_m :=
                            store (PrimitiveBuilder.raw_data_m s1)
                              (nat (length_m s1) * sizeof_value_type) (concat values)\<rparr>
                in (OK, UnsafeAppendToBitmap_iter (take (nat n) valid) s2)))"

subsection \<open>NumericBuilder\<close>

text \<open>
  \<^verbatim>\<open>NumericBuilder<T>\<close> (builder.h, lines 377-415) adds no data member to
  \<^verbatim>\<open>PrimitiveBuilder<T>\<close>. \<^verbatim>\<open>UnsafeAppend(const value_type val)\<close> is lines 406-409
  and \<^verbatim>\<open>Append(const value_type val)\<close> lines 395-399. The value is given by its
  \<^verbatim>\<open>sizeof(value_type)\<close> bytes, which \<^verbatim>\<open>raw_data_[length_++] = val\<close> writes to the
  slot of index \<^verbatim>\<open>length_\<close>.
\<close>

definition NumericBuilder_UnsafeAppend :: "uint8_t list \<Rightarrow> PrimitiveBuilder \<Rightarrow> PrimitiveBuilder" where
  "NumericBuilder_UnsafeAppend val s =
     (let s1 = s\<lparr>null_bitmap_data_m := SetBit (null_bitmap_data_m s) (nat (length_m s))\<rparr>;
          s2 = s1\<lparr>PrimitiveBuilder.raw_data_m :=
                    store (PrimitiveBuilder.raw_data_m s1) (nat (length_m s1) * length val) val\<rparr>
      in s2\<lparr>length_m := length_m s2 + 1\<rparr>)"

definition NumericBuilder_Append ::
  "(int \<Rightarrow> PrimitiveBuilder \<Rightarrow> Status \<times> PrimitiveBuilder) \<Rightarrow> uint8_t list \<Rightarrow>
   PrimitiveBuilder \<Rightarrow> Status \<times> PrimitiveBuilder" where
  "NumericBuilder_Append Reserve val s =
     (case Reserve 1 s of
        (st, s1) \<Rightarrow> if st \<noteq> OK then (st, s1) else (OK, NumericBuilder_UnsafeAppend val s1))"

subsection \<open>BooleanBuilder\<close>

text \<open>
  \<^verbatim>\<open>BooleanBuilder\<close> (builder.h, lines 586-746): the data buffer holds one bit per
  element. \<^verbatim>\<open>UnsafeAppend(const bool)\<close> is lines 621-629, \<^verbatim>\<open>UnsafeAppend(const uint8_t)\<close>
  line 631, \<^verbatim>\<open>Append(const bool)\<close> lines 612-616, \<^verbatim>\<open>Append(const uint8_t)\<close> line 618.
  \<^verbatim>\<open>ArrayBuilder::Reserve\<close> (builder.cc, not among the sources) is the parameter
  \<open>Reserve\<close> of the two \<^verbatim>\<open>Append\<close> functions.
\<close>

record BooleanBuilder = ArrayBuilder +
  raw_data_m :: "uint8_t list"

definition BooleanBuilder_UnsafeAppend :: "bool \<Rightarrow> BooleanBuilder \<Rightarrow> BooleanBuilder" where
  "BooleanBuilder_UnsafeAppend val s =
     (let s1 = s\<lparr>null_bitmap_data_m := SetBit (null_bitmap_data_m s) (nat (length_m s))\<rparr>;
          s2 = (if val
                then s1\<lparr>BooleanBuilder.raw_data_m :=
                          SetBit (BooleanBuilder.raw_data_m s1) (nat (length_m s1))\<rparr>
                else s1\<lparr>BooleanBuilder.raw_data_m :=
                          ClearBit (BooleanBuilder.raw_data_m s1) (nat (length_m s1))\<rparr>)
      in s2\<lparr>length_m := length_m s2 + 1\<rparr>)"

definition BooleanBuilder_UnsafeAppend_uint8 :: "uint8_t \<Rightarrow> BooleanBuilder \<Rightarrow> BooleanBuilder" where
  "BooleanBuilder_UnsafeAppend_uint8 val s = BooleanBuilder_UnsafeAppend (val \<noteq> 0) s"

definition BooleanBuilder_Append ::
  "(int \<Rightarrow> BooleanBuilder \<Rightarrow> Status \<times> BooleanBuilder) \<Rightarrow> bool \<Rightarrow>
   BooleanBuilder \<Rightarrow> Status \<times> BooleanBuilder" where
  "BooleanBuilder_Append Reserve val s =
     (case Reserve 1 s of
        (st, s1) \<Rightarrow> if st \<noteq> OK then (st, s1) else (OK, BooleanBuilder_UnsafeAppend val s1))"

definition BooleanBuilder_Append_uint8 ::
  "(int \<Rightarrow> BooleanBuilder \<Rightarrow> Status \<times> BooleanBuilder) \<Rightarrow> uint8_t \<Rightarrow>
   BooleanBuilder \<Rightarrow> Status \<times> BooleanBuilder" where
  "BooleanBuilder_Append_uint8 Reserve val s = BooleanBuilder_Append Reserve (val \<noteq> 0) s"

text \<open>\<^verbatim>\<open>BooleanBuilder::AppendNull\<close> (builder.h, lines 604-609).\<close>

definition BooleanBuilder_AppendNull ::
  "(int \<Rightarrow> BooleanBuilder \<Rightarrow> Status \<times> BooleanBuilder) \<Rightarrow>
   BooleanBuilder \<Rightarrow> Status \<times> BooleanBuilder" where
  "BooleanBuilder_AppendNull Reserve s =
     (case Reserve 1 s of
        (st, s1) \<Rightarrow> if st \<noteq> OK then (st, s1) else (OK, UnsafeAppendToBitmap False s1))"

text \<open>
  \<^verbatim>\<open>BooleanBuilder::AppendNulls\<close> (builder.h, lines 597-602); \<open>valid_bytes\<close> is the
  memory at the pointer, \<open>None\<close> for a null pointer.
\<close>

definition BooleanBuilder_AppendNulls ::
  "(int \<Rightarrow> BooleanBuilder \<Rightarrow> Status \<times> BooleanBuilder) \<Rightarrow> uint8_t list option \<Rightarrow> int \<Rightarrow>
   BooleanBuilder \<Rightarrow> Status \<times> BooleanBuilder" where
  "BooleanBuilder_AppendNulls Reserve valid_bytes n s =
     (case Reserve n s of
        (st, s1) \<Rightarrow>
          if st \<noteq> OK then (st, s1) else (OK, UnsafeAppendToBitmap_bytes valid_bytes n s1))"

subsection \<open>AdaptiveIntBuilderBase, AdaptiveUIntBuilder, AdaptiveIntBuilder\<close>

text \<open>
  \<^verbatim>\<open>internal::AdaptiveIntBuilderBase\<close> (builder.h, lines 440-480) adds the committed data
  buffer with its element width and the pending region: the arrays \<^verbatim>\<open>pending_valid_\<close>
  and \<^verbatim>\<open>pending_data_\<close> of \<^verbatim>\<open>pending_size_\<close> = 1024 slots, the position
  \<^verbatim>\<open>pending_pos_\<close> (an \<^verbatim>\<open>int32_t\<close>) and the flag \<^verbatim>\<open>pending_has_nulls_\<close>.
\<close>

type_synonym uint64_t = "64 word"

record AdaptiveIntBuilderBase = ArrayBuilder +
  raw_data_m :: "uint8_t list"
  int_size_m :: uint8_t
  pending_valid_m :: "uint8_t list"
  pending_data_m :: "uint64_t list"
  pending_pos_m :: int
  pending_has_nulls_m :: bool

definition pending_size_m :: int where
  "pending_size_m = 1024"

text \<open>
  \<^verbatim>\<open>AdaptiveIntBuilderBase::AppendNull\<close> (builder.h, lines 453-463).
  \<^verbatim>\<open>CommitPendingData\<close> is pure virtual in the base class (line 469) and its overrides
  are defined in builder.cc, which is not among the sources: it is the parameter
  \<open>CommitPendingData\<close>.
\<close>

definition AdaptiveIntBuilderBase_AppendNull ::
  "(AdaptiveIntBuilderBase \<Rightarrow> Status \<times> AdaptiveIntBuilderBase) \<Rightarrow>
   AdaptiveIntBuilderBase \<Rightarrow> Status \<times> AdaptiveIntBuilderBase" where
  "AdaptiveIntBuilderBase_AppendNull CommitPendingData s =
     (let s1 = s\<lparr>pending_data_m := (pending_data_m s)[nat (pending_pos_m s) := 0]\<rparr>;
          s2 = s1\<lparr>pending_valid_m := (pending_valid_m s1)[nat (pending_pos_m s1) := 0]\<rparr>;
          s3 = s2\<lparr>pending_has_nulls_m := True\<rparr>;
          s4 = s3\<lparr>pending_pos_m := pending_pos_m s3 + 1\<rparr>
      in if pending_pos_m s4 \<ge> pending_size_m then CommitPendingData s4 else (OK, s4))"

text \<open>\<^verbatim>\<open>AdaptiveUIntBuilder::Append(const uint64_t)\<close> (builder.h, lines 492-501).\<close>

definition AdaptiveUIntBuilder_Append ::
  "(AdaptiveIntBuilderBase \<Rightarrow> Status \<times> AdaptiveIntBuilderBase) \<Rightarrow> uint64_t \<Rightarrow>
   AdaptiveIntBuilderBase \<Rightarrow> Status \<times> AdaptiveIntBuilderBase" where
  "AdaptiveUIntBuilder_Append CommitPendingData val s =
     (let s1 = s\<lparr>pending_data_m := (pending_data_m s)[nat (pending_pos_m s) := val]\<rparr>;
          s2 = s1\<lparr>pending_valid_m := (pending_valid_m s1)[nat (pending_pos_m s1) := 1]\<rparr>;
          s3 = s2\<lparr>pending_pos_m := pending_pos_m s2 + 1\<rparr>
      in if pending_pos_m s3 \<ge> pending_size_m then CommitPendingData s3 else (OK, s3))"

text \<open>
  \<^verbatim>\<open>AdaptiveIntBuilder::Append(const int64_t)\<close> (builder.h, lines 542-553). The value is
  an \<^verbatim>\<open>int64_t\<close>, given by the integer it denotes; \<^verbatim>\<open>static_cast<uint64_t>\<close> is
  its residue modulo \<open>2 ^ 64\<close>, which \<open>word_of_int\<close> computes.
\<close>

definition AdaptiveIntBuilder_Append ::
  "(AdaptiveIntBuilderBase \<Rightarrow> Status \<times> AdaptiveIntBuilderBase) \<Rightarrow> int \<Rightarrow>
   AdaptiveIntBuilderBase \<Rightarrow> Status \<times> AdaptiveIntBuilderBase" where
  "AdaptiveIntBuilder_Append CommitPendingData val s =
     (let v = (word_of_int val :: uint64_t);
          s1 = s\<lparr>pending_data_m := (pending_data_m s)[nat (pending_pos_m s) := v]\<rparr>;
          s2 = s1\<lparr>pending_valid_m := (pending_valid_m s1)[nat (pending_pos_m s1) := 1]\<rparr>;
          s3 = s2\<lparr>pending_pos_m := pending_pos_m s2 + 1\<rparr>
      in if pending_pos_m s3 \<ge> pending_size_m then CommitPendingData s3 else (OK, s3))"

text \<open>
  A sequence of scalar appends to an adaptive integer builder. The signed and the unsigned
  builder share the state of the base class; a sequence for the signed builder has no
  \<open>UInt_Append\<close> and one for the unsigned builder no \<open>Int_Append\<close>. The sequence stops at
  the first call that does not return OK, with its status.
\<close>

datatype AdaptiveInt_op = Int_Append int | UInt_Append uint64_t | Int_AppendNull

fun AdaptiveInt_call ::
  "(AdaptiveIntBuilderBase \<Rightarrow> Status \<times> AdaptiveIntBuilderBase) \<Rightarrow> AdaptiveInt_op \<Rightarrow>
   AdaptiveIntBuilderBase \<Rightarrow> Status \<times> AdaptiveIntBuilderBase" where
  "AdaptiveInt_call C (Int_Append v) s = AdaptiveIntBuilder_Append C v s"
| "AdaptiveInt_call C (UInt_Append v) s = AdaptiveUIntBuilder_Append C v s"
| "AdaptiveInt_call C Int_AppendNull s = AdaptiveIntBuilderBase_AppendNull C s"

fun AdaptiveInt_calls ::
  "(AdaptiveIntBuilderBase \<Rightarrow> Status \<times> AdaptiveIntBuilderBase) \<Rightarrow> AdaptiveInt_op list \<Rightarrow>
   AdaptiveIntBuilderBase \<Rightarrow> Status \<times> AdaptiveIntBuilderBase" where
  "AdaptiveInt_calls C [] s = (OK, s)"
| "AdaptiveInt_calls C (c # cs) s =
     (case AdaptiveInt_call C c s of
        (st, s') \<Rightarrow> if st \<noteq> OK then (st, s') else AdaptiveInt_calls C cs s')"

text \<open>The slot written by a call, as (\<^verbatim>\<open>pending_data_\<close>, \<^verbatim>\<open>pending_valid_\<close>) entries.\<close>

fun pending_entry :: "AdaptiveInt_op \<Rightarrow> uint64_t \<times> uint8_t" where
  "pending_entry (Int_Append v) = (word_of_int v, 1)"
| "pending_entry (UInt_Append v) = (v, 1)"
| "pending_entry Int_AppendNull = (0, 0)"

text \<open>
  \<^verbatim>\<open>AdaptiveIntBuilderBase::AppendNulls\<close> (builder.h, lines 445-451).
  \<^verbatim>\<open>data_->mutable_data()\<close> is the memory of the committed data buffer; \<open>valid_bytes\<close>
  is the memory at the pointer, \<open>None\<close> for a null pointer. \<^verbatim>\<open>CommitPendingData\<close> and
  \<^verbatim>\<open>Reserve\<close> are parameters.
\<close>

definition AdaptiveIntBuilderBase_AppendNulls ::
  "(AdaptiveIntBuilderBase \<Rightarrow> Status \<times> AdaptiveIntBuilderBase) \<Rightarrow>
   (int \<Rightarrow> AdaptiveIntBuilderBase \<Rightarrow> Status \<times> AdaptiveIntBuilderBase) \<Rightarrow>
   uint8_t list option \<Rightarrow> int \<Rightarrow>
   AdaptiveIntBuilderBase \<Rightarrow> Status \<times> AdaptiveIntBuilderBase" where
  "AdaptiveIntBuilderBase_AppendNulls CommitPendingData Reserve valid_bytes n s =
     (case CommitPendingData s of
        (st, s1) \<Rightarrow>
          if st \<noteq> OK then (st, s1)
          else (case Reserve n s1 of
                  (st', s2) \<Rightarrow>
                    if st' \<noteq> OK then (st', s2)
                    else (let s3 = s2\<lparr>AdaptiveIntBuilderBase.raw_data_m :=
                                      memset (AdaptiveIntBuilderBase.raw_data_m s2)
                                        (nat (length_m s2 * uint (int_size_m s2))) 0
                                        (nat (uint (int_size_m s2) * n))\<rparr>
                          in (OK, UnsafeAppendToBitmap_bytes valid_bytes n s3))))"

text \<open>
  Modelled from the spec: \<^verbatim>\<open>AdaptiveUIntBuilder::CommitPendingData\<close> is declared at
  builder.h, line 515, and defined in builder.cc, which is not among the sources. Section
  4.5 gives its steps: (1) the minimum width for the largest pending value; (2) if it is
  wider than the current one, expand the committed buffer (\<^verbatim>\<open>ExpandIntSize\<close>, declared
  at line 516 and defined in builder.cc: the parameter \<open>ExpandIntSize\<close>); (3) reserve room
  for the pending entries; (4) write each pending value into the data buffer at the current
  width, apply the pending validity flags to the null bitmap and the null count; (5) clear
  the pending region. The bytes of a value are written least significant first.
\<close>

definition uint_width :: "uint64_t \<Rightarrow> nat" where
  "uint_width v =
     (if v \<le> 255 then 1 else if v \<le> 65535 then 2 else if v \<le> 4294967295 then 4 else 8)"

definition little_endian :: "nat \<Rightarrow> uint64_t \<Rightarrow> uint8_t list" where
  "little_endian w v = map (\<lambda>k. ucast (drop_bit (8 * k) v)) [0..<w]"

definition AdaptiveUIntBuilder_CommitPendingData ::
  "(int \<Rightarrow> AdaptiveIntBuilderBase \<Rightarrow> Status \<times> AdaptiveIntBuilderBase) \<Rightarrow>
   (nat \<Rightarrow> AdaptiveIntBuilderBase \<Rightarrow> Status \<times> AdaptiveIntBuilderBase) \<Rightarrow>
   AdaptiveIntBuilderBase \<Rightarrow> Status \<times> AdaptiveIntBuilderBase" where
  "AdaptiveUIntBuilder_CommitPendingData Reserve ExpandIntSize s =
     (let vals = take (nat (pending_pos_m s)) (pending_data_m s);
          flags = take (nat (pending_pos_m s)) (pending_valid_m s);
          w = foldr max (map uint_width vals) 1
      in case (if unat (int_size_m s) < w then ExpandIntSize w s else (OK, s)) of
           (st, s1) \<Rightarrow>
             if st \<noteq> OK then (st, s1)
             else (case Reserve (pending_pos_m s1) s1 of
                     (st', s2) \<Rightarrow>
                       if st' \<noteq> OK then (st', s2)
                       else (let s3 = s2\<lparr>AdaptiveIntBuilderBase.raw_data_m :=
                                         store (AdaptiveIntBuilderBase.raw_data_m s2)
                                           (nat (length_m s2) * unat (int_size_m s2))
                                           (concat (map (little_endian (unat (int_size_m s2)))
                                              vals))\<rparr>;
                                 s4 = UnsafeAppendToBitmap_iter (map (\<lambda>f. f \<noteq> 0) flags) s3
                             in (OK, s4\<lparr>pending_pos_m := 0,
                                       pending_has_nulls_m := False\<rparr>))))"

subsection \<open>BinaryBuilder\<close>

text \<open>
  An \<^verbatim>\<open>int32_t\<close> is a \<open>32 word\<close>, read as a signed number by \<open>sint\<close>;
  \<^verbatim>\<open>static_cast<int32_t>\<close> of an \<^verbatim>\<open>int64_t\<close> keeps its low 32 bits, which
  \<open>word_of_int\<close> computes.
\<close>

type_synonym int32_t = "32 word"

text \<open>
  Modelled from the spec: \<^verbatim>\<open>TypedBufferBuilder<T>\<close>, the type of the two members that
  \<^verbatim>\<open>BinaryBuilder\<close> (builder.h, lines 805-881; \<^verbatim>\<open>StringBuilder\<close>, lines 885-914,
  inherits it) adds, is declared in \<^verbatim>\<open>arrow/buffer.h\<close>, which is not among the sources.
  It is a growable typed buffer (section 2, component 1), modelled by the list of the
  elements appended so far: \<^verbatim>\<open>UnsafeAppend\<close> adds its argument at the end and
  \<^verbatim>\<open>length()\<close> is the number of elements.
\<close>

record BinaryBuilder = ArrayBuilder +
  offsets_builder_m :: "int32_t list"
  value_data_builder_m :: "uint8_t list"


text \<open>\<^verbatim>\<open>BinaryBuilder::UnsafeAppendNextOffset\<close> (builder.h, lines 877-880).\<close>

definition UnsafeAppendNextOffset :: "BinaryBuilder \<Rightarrow> BinaryBuilder" where
  "UnsafeAppendNextOffset s =
     (let num_bytes = int (length (value_data_builder_m s))
      in s\<lparr>offsets_builder_m := offsets_builder_m s @ [word_of_int num_bytes]\<rparr>)"

text \<open>
  \<^verbatim>\<open>BinaryBuilder::UnsafeAppend(const uint8_t* value, int32_t length)\<close> (builder.h, lines
  827-831): \<open>val\<close> is the memory at \<^verbatim>\<open>value\<close>, of which the first \<open>len\<close> bytes are
  appended.
\<close>

definition BinaryBuilder_UnsafeAppend :: "uint8_t list \<Rightarrow> int \<Rightarrow> BinaryBuilder \<Rightarrow> BinaryBuilder" where
  "BinaryBuilder_UnsafeAppend val len s =
     (let s1 = UnsafeAppendNextOffset s;
          s2 = s1\<lparr>value_data_builder_m := value_data_builder_m s1 @ take (nat len) val\<rparr>
      in UnsafeAppendToBitmap True s2)"

text \<open>\<^verbatim>\<open>BinaryBuilder::UnsafeAppendNull\<close> (builder.h, lines 841-845).\<close>

definition BinaryBuilder_UnsafeAppendNull :: "BinaryBuilder \<Rightarrow> BinaryBuilder" where
  "BinaryBuilder_UnsafeAppendNull s =
     (let num_bytes = int (length (value_data_builder_m s));
          s1 = s\<lparr>offsets_builder_m := offsets_builder_m s @ [word_of_int num_bytes]\<rparr>
      in UnsafeAppendToBitmap False s1)"




subsection \<open>FixedSizeBinaryBuilder\<close>

text \<open>
  Modelled from the spec: \<^verbatim>\<open>BufferBuilder\<close>, the type of the member
  \<^verbatim>\<open>byte_builder_\<close> of \<^verbatim>\<open>FixedSizeBinaryBuilder\<close>, is declared in
  \<^verbatim>\<open>arrow/buffer.h\<close>, which is not among the sources. It is a growable byte buffer with
  amortised reallocation (section 2, component 1; section 5, capacity growth): the bytes
  appended so far and the number of bytes the allocated buffer can hold.
\<close>

record BufferBuilder =
  buffer_bytes :: "uint8_t list"
  buffer_capacity :: int

text \<open>
  Modelled from the spec: \<^verbatim>\<open>BufferBuilder::Append(data, length)\<close> (buffer.h, not among
  the sources) appends \<^verbatim>\<open>length\<close> bytes; it reallocates through the memory pool only
  when they do not fit the capacity, and a reallocation can fail (sections 5 and 6.1). The
  reallocation to at least the given number of bytes is the parameter \<open>buffer_Resize\<close>.
\<close>

definition BufferBuilder_Append ::
  "(int \<Rightarrow> BufferBuilder \<Rightarrow> Status \<times> BufferBuilder) \<Rightarrow> uint8_t list \<Rightarrow> int \<Rightarrow>
   BufferBuilder \<Rightarrow> Status \<times> BufferBuilder" where
  "BufferBuilder_Append buffer_Resize data n b =
     (case (if buffer_capacity b < n + int (length (buffer_bytes b))
            then buffer_Resize (n + int (length (buffer_bytes b))) b else (OK, b)) of
        (st, b1) \<Rightarrow>
          if st \<noteq> OK then (st, b1)
          else (OK, b1\<lparr>buffer_bytes := buffer_bytes b1 @ take (nat n) data\<rparr>))"

text \<open>
  \<^verbatim>\<open>FixedSizeBinaryBuilder\<close> (builder.h, lines 919-985) adds \<^verbatim>\<open>byte_width_\<close> and
  \<^verbatim>\<open>byte_builder_\<close>.
\<close>

record FixedSizeBinaryBuilder = ArrayBuilder +
  byte_width_m :: int
  byte_builder_m :: BufferBuilder

text \<open>
  \<^verbatim>\<open>FixedSizeBinaryBuilder::Append(const uint8_t* value)\<close> (builder.h, lines 924-928);
  \<open>val\<close> is the memory at \<^verbatim>\<open>value\<close>. \<^verbatim>\<open>BufferBuilder::Append\<close> (buffer.h) is the
  parameter \<open>byte_builder_Append\<close>, from the memory at \<^verbatim>\<open>value\<close>, the number of
  bytes and the buffer builder to a status and the new buffer builder.
  \<^verbatim>\<open>ArrayBuilder::Reserve\<close> (builder.cc) is the parameter \<open>Reserve\<close>.
\<close>

definition FixedSizeBinaryBuilder_Append ::
  "(int \<Rightarrow> FixedSizeBinaryBuilder \<Rightarrow> Status \<times> FixedSizeBinaryBuilder) \<Rightarrow>
   (uint8_t list \<Rightarrow> int \<Rightarrow> BufferBuilder \<Rightarrow> Status \<times> BufferBuilder) \<Rightarrow>
   uint8_t list \<Rightarrow> FixedSizeBinaryBuilder \<Rightarrow> Status \<times> FixedSizeBinaryBuilder" where
  "FixedSizeBinaryBuilder_Append Reserve byte_builder_Append val s =
     (case Reserve 1 s of
        (st, s1) \<Rightarrow>
          if st \<noteq> OK then (st, s1)
          else (let s2 = UnsafeAppendToBitmap True s1
                in case byte_builder_Append val (byte_width_m s2) (byte_builder_m s2) of
                     (st', bytes) \<Rightarrow> (st', s2\<lparr>byte_builder_m := bytes\<rparr>)))"

subsection \<open>ListBuilder and StructBuilder\<close>

text \<open>
  \<^verbatim>\<open>ListBuilder::AppendNull\<close> (builder.h, line 788) calls \<^verbatim>\<open>ListBuilder::Append\<close>,
  which is declared at line 786 and defined in builder.cc, not among the sources: it is the
  parameter \<open>Append\<close>, for any state type of the ListBuilder.
\<close>

definition ListBuilder_AppendNull :: "(bool \<Rightarrow> 's \<Rightarrow> Status \<times> 's) \<Rightarrow> 's \<Rightarrow> Status \<times> 's" where
  "ListBuilder_AppendNull Append s = Append False s"

text \<open>
  \<^verbatim>\<open>StructBuilder::Append\<close> (builder.h, lines 1030-1034) and
  \<^verbatim>\<open>StructBuilder::AppendNull\<close> (line 1036). Neither touches the field builders, which
  are in the part \<open>'a\<close> of the state. \<^verbatim>\<open>ArrayBuilder::Reserve\<close> (builder.cc, not
  among the sources) is the parameter \<open>Reserve\<close>.
\<close>

definition StructBuilder_Append ::
  "(int \<Rightarrow> 'a ArrayBuilder_scheme \<Rightarrow> Status \<times> 'a ArrayBuilder_scheme) \<Rightarrow> bool \<Rightarrow>
   'a ArrayBuilder_scheme \<Rightarrow> Status \<times> 'a ArrayBuilder_scheme" where
  "StructBuilder_Append Reserve is_valid s =
     (case Reserve 1 s of
        (st, s1) \<Rightarrow> if st \<noteq> OK then (st, s1) else (OK, UnsafeAppendToBitmap is_valid s1))"

definition StructBuilder_AppendNull ::
  "(int \<Rightarrow> 'a ArrayBuilder_scheme \<Rightarrow> Status \<times> 'a ArrayBuilder_scheme) \<Rightarrow>
   'a ArrayBuilder_scheme \<Rightarrow> Status \<times> 'a ArrayBuilder_scheme" where
  "StructBuilder_AppendNull Reserve s = StructBuilder_Append Reserve False s"

text \<open>
  \<^verbatim>\<open>StructBuilder::AppendValues\<close> (builder.h, lines 1022-1026); \<open>valid_bytes\<close> is the
  memory at the pointer, \<open>None\<close> for a null pointer.
\<close>

definition StructBuilder_AppendValues ::
  "(int \<Rightarrow> 'a ArrayBuilder_scheme \<Rightarrow> Status \<times> 'a ArrayBuilder_scheme) \<Rightarrow> int \<Rightarrow>
   uint8_t list option \<Rightarrow> 'a ArrayBuilder_scheme \<Rightarrow> Status \<times> 'a ArrayBuilder_scheme" where
  "StructBuilder_AppendValues Reserve n valid_bytes s =
     (case Reserve n s of
        (st, s1) \<Rightarrow>
          if st \<noteq> OK then (st, s1) else (OK, UnsafeAppendToBitmap_bytes valid_bytes n s1))"

subsection \<open>Example states\<close>

text \<open>
  A BooleanBuilder of three elements, with room for 32: the validity bits are 1, 1, 0 (the
  third element is null) and the data bits are 1, 0, 0.
\<close>

definition example_BooleanBuilder :: BooleanBuilder where
  "example_BooleanBuilder =
     \<lparr>null_bitmap_data_m = [3, 0, 0, 0], null_count_m = 1, length_m = 3, capacity_m = 32,
      BooleanBuilder.raw_data_m = [1, 0, 0, 0]\<rparr>"

text \<open>
  An ArrayBuilder of six elements, with room for 32: the validity bits are
  1, 1, 0, 1, 0, 1 (two nulls).
\<close>

definition example_ArrayBuilder :: ArrayBuilder where
  "example_ArrayBuilder =
     \<lparr>null_bitmap_data_m = [43, 0, 0, 0], null_count_m = 2, length_m = 6, capacity_m = 32\<rparr>"

text \<open>
  A PrimitiveBuilder of 4-byte elements that holds the elements 1 and 2, with room for 32;
  the bytes of the data buffer beyond them are not initialised (here \<open>0xAA\<close>).
\<close>

definition example_PrimitiveBuilder :: PrimitiveBuilder where
  "example_PrimitiveBuilder =
     \<lparr>null_bitmap_data_m = [3, 0, 0, 0], null_count_m = 0, length_m = 2, capacity_m = 32,
      PrimitiveBuilder.raw_data_m = [1, 0, 0, 0, 2, 0, 0, 0] @ replicate 120 170\<rparr>"

text \<open>
  Modelled from the spec: the constructors of \<^verbatim>\<open>BinaryBuilder\<close> are defined in
  builder.cc, which is not among the sources. A builder is constructed empty (section 3.3),
  with empty buffer builders. The example is the constructed BinaryBuilder after room for
  32 elements has been reserved: a zero-filled bitmap of four bytes, no offset and no data.
\<close>

definition example_BinaryBuilder :: BinaryBuilder where
  "example_BinaryBuilder =
     \<lparr>null_bitmap_data_m = [0, 0, 0, 0], null_count_m = 0, length_m = 0, capacity_m = 32,
      offsets_builder_m = [], value_data_builder_m = []\<rparr>"

text \<open>
  A FixedSizeBinaryBuilder of 4-byte values, empty, with room for 32 elements in the bitmap
  and in the byte builder.
\<close>

definition example_FixedSizeBinaryBuilder :: FixedSizeBinaryBuilder where
  "example_FixedSizeBinaryBuilder =
     \<lparr>null_bitmap_data_m = [0, 0, 0, 0], null_count_m = 0, length_m = 0, capacity_m = 32,
      byte_width_m = 4,
      byte_builder_m = \<lparr>buffer_bytes = [], buffer_capacity = 128\<rparr>\<rparr>"

text \<open>
  An adaptive integer builder with one committed element of one byte (the value 7), room
  for 32 elements and an empty pending region.
\<close>

definition example_AdaptiveIntBuilder :: AdaptiveIntBuilderBase where
  "example_AdaptiveIntBuilder =
     \<lparr>null_bitmap_data_m = [1, 0, 0, 0], null_count_m = 0, length_m = 1, capacity_m = 32,
      AdaptiveIntBuilderBase.raw_data_m = 7 # replicate 31 0, int_size_m = 1,
      pending_valid_m = replicate 1024 0, pending_data_m = replicate 1024 0,
      pending_pos_m = 0, pending_has_nulls_m = False\<rparr>"

text \<open>
  A PrimitiveBuilder of 4-byte elements that holds the elements 1 and 2, with room for 32,
  in which the validity bit of index 2, the index of the next element, is set.
\<close>

definition example_PrimitiveBuilder_bit_set :: PrimitiveBuilder where
  "example_PrimitiveBuilder_bit_set =
     \<lparr>null_bitmap_data_m = [7, 0, 0, 0], null_count_m = 0, length_m = 2, capacity_m = 32,
      PrimitiveBuilder.raw_data_m = [1, 0, 0, 0, 2, 0, 0, 0] @ replicate 120 170\<rparr>"


text \<open>
  The example adaptive integer builder after the unsigned values 5 and 6 have been appended:
  one committed element and two pending entries.
\<close>

definition example_AdaptiveIntBuilder_pending :: AdaptiveIntBuilderBase where
  "example_AdaptiveIntBuilder_pending =
     snd (AdaptiveInt_calls (\<lambda>s. (OK, s)) [UInt_Append 5, UInt_Append 6]
            example_AdaptiveIntBuilder)"

section \<open>Properties\<close>

subsection \<open>Bits of a byte buffer\<close>

lemma kBitmask_nth: "k < 8 \<Longrightarrow> kBitmask ! k = push_bit k 1"
proof -
  assume "k < 8"
  then have "k \<in> {0, 1, 2, 3, 4, 5, 6, 7}" by auto
  then show ?thesis
    by (auto simp: kBitmask_def)
qed

lemma kFlippedBitmask_nth: "k < 8 \<Longrightarrow> kFlippedBitmask ! k = NOT (push_bit k 1)"
proof -
  assume "k < 8"
  then have "k \<in> {0, 1, 2, 3, 4, 5, 6, 7}" by auto
  then show ?thesis
    by (auto simp: kFlippedBitmask_def)
qed

lemma bit_or_mask:
  "k < 8 \<Longrightarrow> bit ((w :: uint8_t) OR kBitmask ! k) m = (m = k \<or> bit w m)"
  by (auto simp: kBitmask_nth bit_or_iff bit_exp_iff)

lemma bit_and_flipped:
  "k < 8 \<Longrightarrow> bit ((w :: uint8_t) AND kFlippedBitmask ! k) m = (m \<noteq> k \<and> bit w m)"
  by (auto simp: kFlippedBitmask_nth bit_and_iff bit_not_iff bit_exp_iff
      dest: bit_imp_le_length)

lemma div_mod_8_eq: "(i::nat) div 8 = j div 8 \<Longrightarrow> i mod 8 = j mod 8 \<Longrightarrow> i = j"
  by (metis div_mult_mod_eq)

lemma GetBit_SetBit:
  "i div 8 < length bits \<Longrightarrow> GetBit (SetBit bits i) j = (j = i \<or> GetBit bits j)"
  by (cases "j div 8 = i div 8")
    (auto simp: GetBit_def SetBit_def bit_or_mask dest: div_mod_8_eq)

lemma GetBit_ClearBit:
  "i div 8 < length bits \<Longrightarrow> GetBit (ClearBit bits i) j = (j \<noteq> i \<and> GetBit bits j)"
  by (cases "j div 8 = i div 8")
    (auto simp: GetBit_def ClearBit_def bit_and_flipped dest: div_mod_8_eq)

lemma length_SetBit: "length (SetBit bits i) = length bits"
  by (simp add: SetBit_def)

lemma length_ClearBit: "length (ClearBit bits i) = length bits"
  by (simp add: ClearBit_def)

lemma GetBit_list_update:
  "bo < length bm \<Longrightarrow>
   GetBit (bm[bo := w]) j = (if j div 8 = bo then bit w (j mod 8) else GetBit bm j)"
  by (simp add: GetBit_def)

lemma bit_index_eq: "bi < 8 \<Longrightarrow> (j = 8 * bo + bi) = (j div 8 = bo \<and> j mod 8 = (bi::nat))"
  by auto

subsection \<open>Resize and CheckCapacity\<close>

lemma CheckCapacity_OK_iff:
  "(CheckCapacity c old = OK) = (0 \<le> c \<and> old \<le> c)"
  by (auto simp: CheckCapacity_def)

lemma CheckCapacity_Invalid_iff:
  "is_Invalid (CheckCapacity c old) = (c < 0 \<or> c < old)"
  by (auto simp: CheckCapacity_def)

text \<open>
  C3. The capacity check of Resize fails with an Invalid status exactly when the requested
  capacity is negative or below the current capacity, and succeeds otherwise. Resize
  returns that Invalid status and leaves the builder as it was when the check fails; when
  Resize succeeds the capacity is the requested one, which is not below the old one; in
  every case the capacity after Resize is at least the capacity before.
\<close>

theorem Resize_CheckCapacity:
  "is_Invalid (CheckCapacity c old) = (c < 0 \<or> c < old) \<and>
   (CheckCapacity c old = OK) = (\<not> (c < 0 \<or> c < old)) \<and>
   (if c < 0 \<or> c < capacity_m s
    then is_Invalid (fst (Resize realloc c s)) \<and> snd (Resize realloc c s) = s
    else fst (Resize realloc c s) = fst (realloc c s)) \<and>
   (if fst (Resize realloc c s) = OK
    then capacity_m (snd (Resize realloc c s)) = c \<and> capacity_m s \<le> c
    else snd (Resize realloc c s) = s) \<and>
   capacity_m s \<le> capacity_m (snd (Resize realloc c s))"
proof -
  have check: "(CheckCapacity c old = OK) = (\<not> (c < 0 \<or> c < old))"
    by (auto simp: CheckCapacity_OK_iff)
  have fails: "(if c < 0 \<or> c < capacity_m s
    then is_Invalid (fst (Resize realloc c s)) \<and> snd (Resize realloc c s) = s
    else fst (Resize realloc c s) = fst (realloc c s))"
    by (auto simp: Resize_def CheckCapacity_def Let_def split: prod.splits)
  have result: "(if fst (Resize realloc c s) = OK
    then capacity_m (snd (Resize realloc c s)) = c \<and> capacity_m s \<le> c
    else snd (Resize realloc c s) = s)"
    by (auto simp: Resize_def CheckCapacity_def Let_def split: prod.splits if_splits)
  then have grows: "capacity_m s \<le> capacity_m (snd (Resize realloc c s))"
    by (auto split: if_splits)
  from CheckCapacity_Invalid_iff check fails result grows show ?thesis
    by blast
qed

subsection \<open>NullBuilder\<close>

lemma NullBuilder_call_effect:
  "NullBuilder_call c s =
     (OK, s\<lparr>null_count_m := null_count_m s + 1, length_m := length_m s + 1\<rparr>)"
  by (cases c) (simp_all add: NullBuilder_Append_def NullBuilder_AppendNull_def Let_def)

lemma NullBuilder_calls_effect:
  "NullBuilder_calls cs s =
     (replicate (length cs) OK,
      s\<lparr>null_count_m := null_count_m s + int (length cs),
        length_m := length_m s + int (length cs)\<rparr>)"
proof (induction cs arbitrary: s)
  case Nil
  show ?case by simp
next
  case (Cons c cs)
  show ?case
    by (simp add: NullBuilder_call_effect Cons.IH add.assoc)
qed

text \<open>
  C10. NullBuilder::AppendNull returns OK and adds one to null_count and to length; it
  allocates nothing: the bitmap and the capacity stay as they were. Append(nullptr) is
  AppendNull. Any sequence of appends to a newly constructed NullBuilder returns OK at every
  call and ends with length equal to null_count, both the number of appends.
\<close>

theorem NullBuilder_AppendNull_counts:
  "fst (NullBuilder_AppendNull s) = OK \<and>
   null_count_m (snd (NullBuilder_AppendNull s)) = null_count_m s + 1 \<and>
   length_m (snd (NullBuilder_AppendNull s)) = length_m s + 1 \<and>
   null_bitmap_data_m (snd (NullBuilder_AppendNull s)) = null_bitmap_data_m s \<and>
   capacity_m (snd (NullBuilder_AppendNull s)) = capacity_m s \<and>
   NullBuilder_Append v s = NullBuilder_AppendNull s \<and>
   fst (NullBuilder_calls cs ArrayBuilder_ctor) = replicate (length cs) OK \<and>
   length_m (snd (NullBuilder_calls cs ArrayBuilder_ctor)) =
     null_count_m (snd (NullBuilder_calls cs ArrayBuilder_ctor)) \<and>
   length_m (snd (NullBuilder_calls cs ArrayBuilder_ctor)) = int (length cs) \<and>
   null_bitmap_data_m (snd (NullBuilder_calls cs ArrayBuilder_ctor)) = [] \<and>
   capacity_m (snd (NullBuilder_calls cs ArrayBuilder_ctor)) = 0"
  by (simp add: NullBuilder_AppendNull_def NullBuilder_Append_def Let_def
      NullBuilder_calls_effect ArrayBuilder_ctor_def)

subsection \<open>The null bitmap\<close>

lemma UnsafeAppendToBitmap_loop_spec:
  assumes "bi \<le> 8" and "8 * bo + bi + length vs \<le> 8 * length bm" and "bo < length bm"
  shows "case UnsafeAppendToBitmap_loop vs (bo, bi, bitset, bm, nc) of
           (bo', bi', bitset', bm', nc') \<Rightarrow>
             bi' \<le> 8 \<and> (vs \<noteq> [] \<longrightarrow> 0 < bi') \<and> bo' < length bm' \<and>
             length bm' = length bm \<and>
             nc' = nc + int (length (filter Not vs)) \<and>
             (\<forall>j. GetBit (bm'[bo' := bitset']) j =
               (if 8 * bo + bi \<le> j \<and> j < 8 * bo + bi + length vs
                then vs ! (j - (8 * bo + bi)) else GetBit (bm[bo := bitset]) j))"
  using assms
proof (induction vs arbitrary: bo bi bitset bm nc)
  case Nil
  then show ?case by auto
next
  case (Cons v vs)
  define bo1 where "bo1 = (if bi = 8 then bo + 1 else bo)"
  define bi1 where "bi1 = (if bi = 8 then 0 else bi)"
  define bm1 where "bm1 = (if bi = 8 then bm[bo := bitset] else bm)"
  define bitset1 where "bitset1 = (if bi = 8 then (bm[bo := bitset]) ! (bo + 1) else bitset)"
  define bitset2 where
    "bitset2 = (if v then bitset1 OR (kBitmask ! bi1) else bitset1 AND (kFlippedBitmask ! bi1))"
  define nc2 where "nc2 = (if v then nc else nc + 1)"
  have step: "UnsafeAppendToBitmap_loop (v # vs) (bo, bi, bitset, bm, nc) =
              UnsafeAppendToBitmap_loop vs (bo1, bi1 + 1, bitset2, bm1, nc2)"
    by (simp add: bo1_def bi1_def bm1_def bitset1_def bitset2_def nc2_def)
  have bi1: "bi1 < 8" using Cons.prems by (simp add: bi1_def)
  have pos: "8 * bo1 + bi1 = 8 * bo + bi" by (simp add: bo1_def bi1_def)
  have len1: "length bm1 = length bm" by (simp add: bm1_def)
  have bo1: "bo1 < length bm1" using Cons.prems by (auto simp: bo1_def len1)
  have V1: "bm1[bo1 := bitset1] = bm[bo := bitset]"
  proof (cases "bi = 8")
    case True
    then have "bm1 = bm[bo := bitset]" and "bo1 = bo + 1" and "bitset1 = bm1 ! bo1"
      by (simp_all add: bm1_def bo1_def bitset1_def)
    then show ?thesis
      by (simp only: list_update_id)
  next
    case False
    then show ?thesis by (simp add: bm1_def bo1_def bitset1_def)
  qed
  have bit2: "bit bitset2 m = (if m = bi1 then v else bit bitset1 m)" for m
    using bi1 by (simp add: bitset2_def bit_or_mask bit_and_flipped)
  have V2: "GetBit (bm1[bo1 := bitset2]) j =
            (if j = 8 * bo + bi then v else GetBit (bm[bo := bitset]) j)" for j
  proof -
    have "GetBit (bm1[bo1 := bitset2]) j =
          (if j = 8 * bo1 + bi1 then v else GetBit (bm1[bo1 := bitset1]) j)"
      using bo1 bi1 by (auto simp: GetBit_list_update bit2 bit_index_eq)
    then show ?thesis by (simp add: V1 pos)
  qed
  have IH: "case UnsafeAppendToBitmap_loop vs (bo1, bi1 + 1, bitset2, bm1, nc2) of
           (bo', bi', bitset', bm', nc') \<Rightarrow>
             bi' \<le> 8 \<and> (vs \<noteq> [] \<longrightarrow> 0 < bi') \<and> bo' < length bm' \<and>
             length bm' = length bm1 \<and>
             nc' = nc2 + int (length (filter Not vs)) \<and>
             (\<forall>j. GetBit (bm'[bo' := bitset']) j =
               (if 8 * bo1 + (bi1 + 1) \<le> j \<and> j < 8 * bo1 + (bi1 + 1) + length vs
                then vs ! (j - (8 * bo1 + (bi1 + 1))) else GetBit (bm1[bo1 := bitset2]) j))"
  proof (rule Cons.IH)
    show "bi1 + 1 \<le> 8" using bi1 by simp
    show "8 * bo1 + (bi1 + 1) + length vs \<le> 8 * length bm1"
      using Cons.prems pos by (simp add: len1)
    show "bo1 < length bm1" by (rule bo1)
  qed
  obtain bo' bi' bitset' bm' nc' where
    res: "UnsafeAppendToBitmap_loop vs (bo1, bi1 + 1, bitset2, bm1, nc2) =
          (bo', bi', bitset', bm', nc')"
    by (metis prod_cases5)
  have pos0: "0 < bi'"
  proof (cases vs)
    case Nil
    then show ?thesis using res by simp
  next
    case (Cons a list)
    then show ?thesis using IH res by simp
  qed
  have bits: "GetBit (bm'[bo' := bitset']) j =
               (if 8 * bo + bi \<le> j \<and> j < 8 * bo + bi + length (v # vs)
                then (v # vs) ! (j - (8 * bo + bi)) else GetBit (bm[bo := bitset]) j)" for j
  proof -
    have "GetBit (bm'[bo' := bitset']) j =
               (if 8 * bo1 + (bi1 + 1) \<le> j \<and> j < 8 * bo1 + (bi1 + 1) + length vs
                then vs ! (j - (8 * bo1 + (bi1 + 1))) else GetBit (bm1[bo1 := bitset2]) j)"
      using IH res by simp
    then show ?thesis
      using pos by (auto simp: V2 nth_Cons')
  qed
  have rest: "bi' \<le> 8 \<and> bo' < length bm' \<and> length bm' = length bm \<and>
              nc' = nc + int (length (filter Not (v # vs)))"
    using IH unfolding res by (simp add: len1 nc2_def)
  show ?case
    unfolding step res using rest bits pos0 by simp
qed


lemma UnsafeAppendToBitmap_iter_effect:
  assumes "0 \<le> length_m s"
    and "nat (length_m s) div 8 < length (null_bitmap_data_m s)"
    and "nat (length_m s) + length vs \<le> 8 * length (null_bitmap_data_m s)"
  shows "length (null_bitmap_data_m (UnsafeAppendToBitmap_iter vs s)) =
           length (null_bitmap_data_m s)"
    and "GetBit (null_bitmap_data_m (UnsafeAppendToBitmap_iter vs s)) j =
           (if nat (length_m s) \<le> j \<and> j < nat (length_m s) + length vs
            then vs ! (j - nat (length_m s)) else GetBit (null_bitmap_data_m s) j)"
    and "null_count_m (UnsafeAppendToBitmap_iter vs s) =
           null_count_m s + int (length (filter Not vs))"
    and "length_m (UnsafeAppendToBitmap_iter vs s) = length_m s + int (length vs)"
proof -
  define n where "n = nat (length_m s)"
  define bm where "bm = null_bitmap_data_m s"
  define bo where "bo = n div 8"
  define bi where "bi = n mod 8"
  obtain bo' bi' bitset' bm' nc' where
    res: "UnsafeAppendToBitmap_loop vs (bo, bi, bm ! bo, bm, null_count_m s) =
          (bo', bi', bitset', bm', nc')"
    by (metis prod_cases5)
  have n: "8 * bo + bi = n" by (simp add: bo_def bi_def)
  have "bi \<le> 8" by (simp add: bi_def)
  moreover have "8 * bo + bi + length vs \<le> 8 * length bm"
    using assms(3) by (simp add: n n_def bm_def)
  moreover have "bo < length bm"
    using assms(2) by (simp add: bo_def n_def bm_def)
  ultimately have spec: "bi' \<le> 8 \<and> (vs \<noteq> [] \<longrightarrow> 0 < bi') \<and> bo' < length bm' \<and>
             length bm' = length bm \<and>
             nc' = null_count_m s + int (length (filter Not vs)) \<and>
             (\<forall>j. GetBit (bm'[bo' := bitset']) j =
               (if 8 * bo + bi \<le> j \<and> j < 8 * bo + bi + length vs
                then vs ! (j - (8 * bo + bi)) else GetBit (bm[bo := bm ! bo]) j))"
    using UnsafeAppendToBitmap_loop_spec [where bi = bi and bo = bo and vs = vs and bm = bm
        and bitset = "bm ! bo" and nc = "null_count_m s"]
    unfolding res by simp
  define final where "final = (if bi' \<noteq> 0 then bm'[bo' := bitset'] else bm')"
  have unfold: "UnsafeAppendToBitmap_iter vs s =
        s\<lparr>null_bitmap_data_m := final, null_count_m := nc',
          length_m := length_m s + int (length vs)\<rparr>"
    using res
    by (simp add: UnsafeAppendToBitmap_iter_def Let_def final_def n_def bm_def bo_def bi_def)
  have final: "final = bm'[bo' := bitset']"
  proof (cases "bi' = 0")
    case True
    with spec have "vs = []" by auto
    with res have "bm' = bm" and "bo' = bo" and "bitset' = bm ! bo" by auto
    then have "bm'[bo' := bitset'] = bm'" by simp
    with True show ?thesis by (simp add: final_def)
  next
    case False
    then show ?thesis by (simp add: final_def)
  qed
  show "length (null_bitmap_data_m (UnsafeAppendToBitmap_iter vs s)) =
           length (null_bitmap_data_m s)"
    using spec by (simp add: unfold final bm_def)
  show "GetBit (null_bitmap_data_m (UnsafeAppendToBitmap_iter vs s)) j =
           (if nat (length_m s) \<le> j \<and> j < nat (length_m s) + length vs
            then vs ! (j - nat (length_m s)) else GetBit (null_bitmap_data_m s) j)"
  proof -
    have "GetBit final j =
               (if n \<le> j \<and> j < n + length vs
                then vs ! (j - n) else GetBit (bm[bo := bm ! bo]) j)"
      using spec unfolding final n by blast
    then show ?thesis
      unfolding unfold n_def bm_def by simp
  qed
  show "null_count_m (UnsafeAppendToBitmap_iter vs s) =
           null_count_m s + int (length (filter Not vs))"
    using spec by (simp add: unfold)
  show "length_m (UnsafeAppendToBitmap_iter vs s) = length_m s + int (length vs)"
    by (simp add: unfold)
qed


lemma UnsafeAppendToBitmap_effect:
  assumes "0 \<le> length_m s"
    and "nat (length_m s) div 8 < length (null_bitmap_data_m s)"
  shows "length (null_bitmap_data_m (UnsafeAppendToBitmap b s)) =
           length (null_bitmap_data_m s)"
    and "GetBit (null_bitmap_data_m (UnsafeAppendToBitmap b s)) j =
           ((b \<and> j = nat (length_m s)) \<or> GetBit (null_bitmap_data_m s) j)"
    and "null_count_m (UnsafeAppendToBitmap b s) = null_count_m s + (if b then 0 else 1)"
    and "length_m (UnsafeAppendToBitmap b s) = length_m s + 1"
  using assms
  by (auto simp: UnsafeAppendToBitmap_def Let_def GetBit_SetBit length_SetBit)


lemma count_zero_bits_append:
  assumes "\<And>j. j < n \<Longrightarrow> GetBit bm' j = GetBit bm j"
    and "\<And>j. j < length vs \<Longrightarrow> GetBit bm' (n + j) = vs ! j"
    and "n + length vs \<le> 8 * length bm'"
    and "n \<le> 8 * length bm"
  shows "count_zero_bits bm' (n + length vs) = count_zero_bits bm n + length (filter Not vs)"
proof -
  have m1: "min (n + length vs) (8 * length bm') = n + length vs"
    using assms(3) by simp
  have m2: "min n (8 * length bm) = n"
    using assms(4) by simp
  have split: "[0..<n + length vs] = [0..<n] @ [n..<n + length vs]"
    by (rule upt_add_eq_append) simp
  have low: "filter (\<lambda>i. \<not> GetBit bm' i) [0..<n] = filter (\<lambda>i. \<not> GetBit bm i) [0..<n]"
    by (rule filter_cong) (simp_all add: assms(1))
  have "map (GetBit bm') [n..<n + length vs] = vs"
    by (rule nth_equalityI) (simp_all add: assms(2))
  then have "length (filter Not vs) =
             length (filter Not (map (GetBit bm') [n..<n + length vs]))"
    by simp
  also have "\<dots> = length (filter (\<lambda>i. \<not> GetBit bm' i) [n..<n + length vs])"
    by (simp add: filter_map comp_def)
  finally show ?thesis
    unfolding count_zero_bits_def m1 m2 split by (simp add: low)
qed

lemma unused_bits_zero_iff:
  "unused_bits_zero s =
     (\<forall>i. nat (length_m s) \<le> i \<and> i < 8 * length (null_bitmap_data_m s) \<longrightarrow>
       \<not> GetBit (null_bitmap_data_m s) i)"
  by (auto simp: unused_bits_zero_def list_all_iff)

lemma appended_bitsI:
  assumes inv: "bitmap_invariant s"
    and room: "nat (length_m s) + length vs \<le> 8 * length (null_bitmap_data_m s)"
    and len': "length_m s' = length_m s + int (length vs)"
    and nc': "null_count_m s' = null_count_m s + int (length (filter Not vs))"
    and size': "length (null_bitmap_data_m s') = length (null_bitmap_data_m s)"
    and bits': "\<And>j. GetBit (null_bitmap_data_m s') j =
           (if nat (length_m s) \<le> j \<and> j < nat (length_m s) + length vs
            then vs ! (j - nat (length_m s)) else GetBit (null_bitmap_data_m s) j)"
  shows "appended_bits vs s s'"
proof -
  define n where "n = nat (length_m s)"
  have inv1: "null_count_is_zero_bits s" and inv2: "unused_bits_zero s"
    using inv by (simp_all add: bitmap_invariant_def)
  have pos: "0 \<le> length_m s" using inv1 by (simp add: null_count_is_zero_bits_def)
  have n': "nat (length_m s') = n + length vs"
    using pos by (simp add: len' n_def nat_add_distrib)
  have "count_zero_bits (null_bitmap_data_m s') (n + length vs) =
        count_zero_bits (null_bitmap_data_m s) n + length (filter Not vs)"
    using room by (intro count_zero_bits_append) (simp_all add: bits' n_def size')
  then have "null_count_m s' = int (count_zero_bits (null_bitmap_data_m s') (nat (length_m s')))"
    using inv1 unfolding n' nc' by (simp add: null_count_is_zero_bits_def n_def)
  moreover have "0 \<le> length_m s'" using pos by (simp add: len')
  ultimately have "null_count_is_zero_bits s'"
    by (simp add: null_count_is_zero_bits_def)
  moreover have "unused_bits_zero s'"
    using inv2 unfolding unused_bits_zero_iff n' size' by (simp add: bits' n_def)
  ultimately have "bitmap_invariant s'"
    by (simp add: bitmap_invariant_def)
  then show ?thesis
    by (simp add: appended_bits_def len' nc' size' bits' list_all_iff)
qed

lemma appended_bits_cong:
  assumes "null_bitmap_data_m t = null_bitmap_data_m s'"
    and "null_count_m t = null_count_m s'"
    and "length_m t = length_m s'"
  shows "appended_bits vs s t = appended_bits vs s s'"
  by (simp add: appended_bits_def bitmap_invariant_def null_count_is_zero_bits_def
      unused_bits_zero_def assms)

lemma UnsafeAppendToBitmap_appended_bits:
  assumes inv: "bitmap_invariant s" and room: "has_room 1 s"
  shows "appended_bits [b] s (UnsafeAppendToBitmap b s)"
proof -
  have pos: "0 \<le> length_m s"
    using inv by (simp add: bitmap_invariant_def null_count_is_zero_bits_def)
  have byte: "nat (length_m s) div 8 < length (null_bitmap_data_m s)"
    and room1: "nat (length_m s) + length [b] \<le> 8 * length (null_bitmap_data_m s)"
    using room by (simp_all add: has_room_def)
  have slot: "\<not> GetBit (null_bitmap_data_m s) (nat (length_m s))"
    using inv room1 by (simp add: bitmap_invariant_def unused_bits_zero_iff)
  note one = UnsafeAppendToBitmap_effect [OF pos byte, of b]
  have bits1: "GetBit (null_bitmap_data_m (UnsafeAppendToBitmap b s)) j =
           (if nat (length_m s) \<le> j \<and> j < nat (length_m s) + length [b]
            then [b] ! (j - nat (length_m s)) else GetBit (null_bitmap_data_m s) j)" for j
    using slot by (cases "j = nat (length_m s)") (auto simp: one(2))
  show ?thesis
    by (rule appended_bitsI [OF inv room1 _ _ _ bits1]) (simp_all add: one(1,3,4))
qed

lemma UnsafeAppendToBitmap_iter_appended_bits:
  assumes inv: "bitmap_invariant s" and room: "has_room (length vs) s"
  shows "appended_bits vs s (UnsafeAppendToBitmap_iter vs s)"
proof -
  have pos: "0 \<le> length_m s"
    using inv by (simp add: bitmap_invariant_def null_count_is_zero_bits_def)
  have byte: "nat (length_m s) div 8 < length (null_bitmap_data_m s)"
    and roomn: "nat (length_m s) + length vs \<le> 8 * length (null_bitmap_data_m s)"
    using room by (simp_all add: has_room_def)
  note many = UnsafeAppendToBitmap_iter_effect [OF pos byte roomn]
  show ?thesis
    by (rule appended_bitsI [OF inv roomn]) (simp_all add: many)
qed

lemma bitmap_invariant_cong:
  assumes "null_bitmap_data_m t = null_bitmap_data_m s"
    and "null_count_m t = null_count_m s"
    and "length_m t = length_m s"
  shows "bitmap_invariant t = bitmap_invariant s"
  by (simp add: bitmap_invariant_def null_count_is_zero_bits_def unused_bits_zero_def assms)

lemma appended_bits_nil:
  assumes "bitmap_invariant s"
    and "null_bitmap_data_m t = null_bitmap_data_m s"
    and "null_count_m t = null_count_m s"
    and "length_m t = length_m s"
  shows "appended_bits [] s t"
  using assms bitmap_invariant_cong [OF assms(2-4)]
  by (simp add: appended_bits_def list_all_iff)

subsection \<open>BooleanBuilder\<close>

text \<open>
  C7. BooleanBuilder::UnsafeAppend(b), on a builder whose buffers hold the bit of index
  length, sets the validity bit of index length, makes the data bit of index length equal to
  b (set when b is true, cleared when b is false) and adds one to length. It changes neither
  null_count nor the capacity, and no other bit of the two buffers.
\<close>

theorem BooleanBuilder_UnsafeAppend_bits:
  assumes "0 \<le> length_m s"
    and "nat (length_m s) div 8 < length (null_bitmap_data_m s)"
    and "nat (length_m s) div 8 < length (BooleanBuilder.raw_data_m s)"
  shows "GetBit (null_bitmap_data_m (BooleanBuilder_UnsafeAppend b s)) (nat (length_m s)) \<and>
         GetBit (BooleanBuilder.raw_data_m (BooleanBuilder_UnsafeAppend b s))
           (nat (length_m s)) = b \<and>
         length_m (BooleanBuilder_UnsafeAppend b s) = length_m s + 1 \<and>
         null_count_m (BooleanBuilder_UnsafeAppend b s) = null_count_m s \<and>
         capacity_m (BooleanBuilder_UnsafeAppend b s) = capacity_m s \<and>
         (\<forall>j. j \<noteq> nat (length_m s) \<longrightarrow>
            GetBit (null_bitmap_data_m (BooleanBuilder_UnsafeAppend b s)) j =
              GetBit (null_bitmap_data_m s) j \<and>
            GetBit (BooleanBuilder.raw_data_m (BooleanBuilder_UnsafeAppend b s)) j =
              GetBit (BooleanBuilder.raw_data_m s) j)"
  using assms
  by (simp add: BooleanBuilder_UnsafeAppend_def Let_def GetBit_SetBit GetBit_ClearBit)

theorem BooleanBuilder_UnsafeAppend_bits_witness:
  "BooleanBuilder_UnsafeAppend True example_BooleanBuilder =
     \<lparr>null_bitmap_data_m = [11, 0, 0, 0], null_count_m = 1, length_m = 4, capacity_m = 32,
      BooleanBuilder.raw_data_m = [9, 0, 0, 0]\<rparr> \<and>
   BooleanBuilder_UnsafeAppend False example_BooleanBuilder =
     \<lparr>null_bitmap_data_m = [11, 0, 0, 0], null_count_m = 1, length_m = 4, capacity_m = 32,
      BooleanBuilder.raw_data_m = [1, 0, 0, 0]\<rparr> \<and>
   GetBit (null_bitmap_data_m (BooleanBuilder_UnsafeAppend True example_BooleanBuilder)) 3 \<and>
   GetBit (BooleanBuilder.raw_data_m
     (BooleanBuilder_UnsafeAppend True example_BooleanBuilder)) 3 \<and>
   \<not> GetBit (BooleanBuilder.raw_data_m
     (BooleanBuilder_UnsafeAppend False example_BooleanBuilder)) 3 \<and>
   null_count_m (BooleanBuilder_UnsafeAppend True example_BooleanBuilder) = 1"
  using BooleanBuilder_UnsafeAppend_bits [of example_BooleanBuilder True]
    BooleanBuilder_UnsafeAppend_bits [of example_BooleanBuilder False]
  by (simp add: example_BooleanBuilder_def BooleanBuilder_UnsafeAppend_def Let_def
      SetBit_def ClearBit_def kBitmask_def kFlippedBitmask_def)

lemma card_nonzero_uint8: "card {v :: uint8_t. v \<noteq> 0} = 255"
proof -
  have "{v :: uint8_t. v \<noteq> 0} = UNIV - {0}" by auto
  then show ?thesis by (simp add: card_Diff_singleton card_word)
qed

text \<open>
  C9. For every byte v, BooleanBuilder::Append(v) is Append(v != 0) and UnsafeAppend(v) is
  UnsafeAppend(v != 0), on every builder. So, on a builder whose data buffer holds the bit
  of index length, the data bit appended is 1 exactly when v is not zero, for UnsafeAppend
  and for an Append whose Reserve succeeds; there are 255 such bytes.
\<close>

theorem BooleanBuilder_uint8_coercion:
  assumes "Reserve 1 s0 = (OK, s)"
    and "0 \<le> length_m s"
    and "nat (length_m s) div 8 < length (BooleanBuilder.raw_data_m s)"
  shows "BooleanBuilder_Append_uint8 R v t = BooleanBuilder_Append R (v \<noteq> 0) t \<and>
         BooleanBuilder_UnsafeAppend_uint8 v t = BooleanBuilder_UnsafeAppend (v \<noteq> 0) t \<and>
         GetBit (BooleanBuilder.raw_data_m (BooleanBuilder_UnsafeAppend_uint8 v s))
           (nat (length_m s)) = (v \<noteq> 0) \<and>
         fst (BooleanBuilder_Append_uint8 Reserve v s0) = OK \<and>
         GetBit (BooleanBuilder.raw_data_m (snd (BooleanBuilder_Append_uint8 Reserve v s0)))
           (nat (length_m s)) = (v \<noteq> 0) \<and>
         card {v :: uint8_t. v \<noteq> 0} = 255"
  using assms
  by (simp add: BooleanBuilder_Append_uint8_def BooleanBuilder_UnsafeAppend_uint8_def
      BooleanBuilder_Append_def BooleanBuilder_UnsafeAppend_def Let_def
      GetBit_SetBit GetBit_ClearBit card_nonzero_uint8)

theorem BooleanBuilder_uint8_coercion_witness:
  "BooleanBuilder_UnsafeAppend_uint8 2 example_BooleanBuilder =
     BooleanBuilder_UnsafeAppend True example_BooleanBuilder \<and>
   BooleanBuilder_Append_uint8 (\<lambda>n s. (OK, s)) 2 example_BooleanBuilder =
     BooleanBuilder_Append (\<lambda>n s. (OK, s)) True example_BooleanBuilder \<and>
   GetBit (BooleanBuilder.raw_data_m
     (BooleanBuilder_UnsafeAppend_uint8 2 example_BooleanBuilder)) 3 \<and>
   GetBit (BooleanBuilder.raw_data_m
     (BooleanBuilder_UnsafeAppend_uint8 255 example_BooleanBuilder)) 3 \<and>
   \<not> GetBit (BooleanBuilder.raw_data_m
     (BooleanBuilder_UnsafeAppend_uint8 0 example_BooleanBuilder)) 3 \<and>
   BooleanBuilder.raw_data_m
     (snd (BooleanBuilder_Append_uint8 (\<lambda>n s. (OK, s)) 2 example_BooleanBuilder)) = [9, 0, 0, 0]"
  using BooleanBuilder_uint8_coercion
      [of "\<lambda>n s. (OK, s)" example_BooleanBuilder example_BooleanBuilder
          "\<lambda>n s. (OK, s)" 2 example_BooleanBuilder]
    BooleanBuilder_uint8_coercion
      [of "\<lambda>n s. (OK, s)" example_BooleanBuilder example_BooleanBuilder
          "\<lambda>n s. (OK, s)" 255 example_BooleanBuilder]
    BooleanBuilder_uint8_coercion
      [of "\<lambda>n s. (OK, s)" example_BooleanBuilder example_BooleanBuilder
          "\<lambda>n s. (OK, s)" 0 example_BooleanBuilder]
  by (simp add: example_BooleanBuilder_def BooleanBuilder_Append_uint8_def
      BooleanBuilder_UnsafeAppend_uint8_def BooleanBuilder_Append_def
      BooleanBuilder_UnsafeAppend_def Let_def SetBit_def ClearBit_def
      kBitmask_def kFlippedBitmask_def)

subsection \<open>PrimitiveBuilder\<close>






subsection \<open>BinaryBuilder\<close>









subsection \<open>ListBuilder and StructBuilder\<close>

text \<open>
  C8. ListBuilder::AppendNull returns what Append(false) returns, status and state, whatever
  ListBuilder::Append does; so does StructBuilder::AppendNull with StructBuilder::Append.
  Spelled out for the StructBuilder: the status of Reserve(1) when that fails, and otherwise
  OK with one more null and one more element.
\<close>

theorem StructBuilder_ListBuilder_AppendNull:
  "ListBuilder_AppendNull Append s = Append False s \<and>
   StructBuilder_AppendNull Reserve t = StructBuilder_Append Reserve False t \<and>
   StructBuilder_AppendNull Reserve t =
     (if fst (Reserve 1 t) \<noteq> OK then Reserve 1 t
      else (OK, (snd (Reserve 1 t))
                  \<lparr>null_count_m := null_count_m (snd (Reserve 1 t)) + 1,
                   length_m := length_m (snd (Reserve 1 t)) + 1\<rparr>))"
  by (simp add: ListBuilder_AppendNull_def StructBuilder_AppendNull_def StructBuilder_Append_def
      UnsafeAppendToBitmap_def Let_def split: prod.splits)

subsection \<open>AdaptiveIntBuilder and AdaptiveUIntBuilder\<close>

lemma AdaptiveInt_call_no_commit:
  assumes "pending_pos_m s + 1 < pending_size_m"
  shows "AdaptiveInt_call C c s =
           (OK, s\<lparr>pending_valid_m :=
                     (pending_valid_m s)[nat (pending_pos_m s) := snd (pending_entry c)],
                   pending_data_m :=
                     (pending_data_m s)[nat (pending_pos_m s) := fst (pending_entry c)],
                   pending_pos_m := pending_pos_m s + 1,
                   pending_has_nulls_m := (pending_has_nulls_m s \<or> c = Int_AppendNull)\<rparr>)"
  using assms
  by (cases c)
    (simp_all add: AdaptiveIntBuilder_Append_def AdaptiveUIntBuilder_Append_def
      AdaptiveIntBuilderBase_AppendNull_def Let_def)

lemma AdaptiveInt_calls_no_commit:
  assumes "0 \<le> pending_pos_m s"
    and "pending_pos_m s + int (length cs) < pending_size_m"
    and "length (pending_data_m s) = nat pending_size_m"
    and "length (pending_valid_m s) = nat pending_size_m"
  shows "fst (AdaptiveInt_calls C cs s) = OK \<and>
         ArrayBuilder.truncate (snd (AdaptiveInt_calls C cs s)) = ArrayBuilder.truncate s \<and>
         AdaptiveIntBuilderBase.raw_data_m (snd (AdaptiveInt_calls C cs s)) =
           AdaptiveIntBuilderBase.raw_data_m s \<and>
         int_size_m (snd (AdaptiveInt_calls C cs s)) = int_size_m s \<and>
         pending_pos_m (snd (AdaptiveInt_calls C cs s)) = pending_pos_m s + int (length cs) \<and>
         length (pending_data_m (snd (AdaptiveInt_calls C cs s))) = nat pending_size_m \<and>
         length (pending_valid_m (snd (AdaptiveInt_calls C cs s))) = nat pending_size_m \<and>
         (\<forall>j < nat (pending_pos_m s).
            pending_data_m (snd (AdaptiveInt_calls C cs s)) ! j = pending_data_m s ! j \<and>
            pending_valid_m (snd (AdaptiveInt_calls C cs s)) ! j = pending_valid_m s ! j) \<and>
         (\<forall>k < length cs.
            pending_data_m (snd (AdaptiveInt_calls C cs s)) ! (nat (pending_pos_m s) + k) =
              fst (pending_entry (cs ! k)) \<and>
            pending_valid_m (snd (AdaptiveInt_calls C cs s)) ! (nat (pending_pos_m s) + k) =
              snd (pending_entry (cs ! k)))"
  using assms
proof (induction cs arbitrary: s)
  case Nil
  then show ?case by simp
next
  case (Cons c cs)
  define s1 where "s1 = s\<lparr>pending_valid_m :=
                     (pending_valid_m s)[nat (pending_pos_m s) := snd (pending_entry c)],
                   pending_data_m :=
                     (pending_data_m s)[nat (pending_pos_m s) := fst (pending_entry c)],
                   pending_pos_m := pending_pos_m s + 1,
                   pending_has_nulls_m := (pending_has_nulls_m s \<or> c = Int_AppendNull)\<rparr>"
  have call: "AdaptiveInt_call C c s = (OK, s1)"
    unfolding s1_def using Cons.prems(2) by (intro AdaptiveInt_call_no_commit) simp
  have step: "AdaptiveInt_calls C (c # cs) s = AdaptiveInt_calls C cs s1"
    by (simp add: call)
  have pos1: "pending_pos_m s1 = pending_pos_m s + 1" by (simp add: s1_def)
  have npos1: "nat (pending_pos_m s1) = Suc (nat (pending_pos_m s))"
    using Cons.prems(1) by (simp add: pos1 nat_add_distrib)
  have inrange: "nat (pending_pos_m s) < nat pending_size_m"
    using Cons.prems(1,2) by simp
  have IH: "fst (AdaptiveInt_calls C cs s1) = OK \<and>
         ArrayBuilder.truncate (snd (AdaptiveInt_calls C cs s1)) = ArrayBuilder.truncate s1 \<and>
         AdaptiveIntBuilderBase.raw_data_m (snd (AdaptiveInt_calls C cs s1)) =
           AdaptiveIntBuilderBase.raw_data_m s1 \<and>
         int_size_m (snd (AdaptiveInt_calls C cs s1)) = int_size_m s1 \<and>
         pending_pos_m (snd (AdaptiveInt_calls C cs s1)) = pending_pos_m s1 + int (length cs) \<and>
         length (pending_data_m (snd (AdaptiveInt_calls C cs s1))) = nat pending_size_m \<and>
         length (pending_valid_m (snd (AdaptiveInt_calls C cs s1))) = nat pending_size_m \<and>
         (\<forall>j < nat (pending_pos_m s1).
            pending_data_m (snd (AdaptiveInt_calls C cs s1)) ! j = pending_data_m s1 ! j \<and>
            pending_valid_m (snd (AdaptiveInt_calls C cs s1)) ! j = pending_valid_m s1 ! j) \<and>
         (\<forall>k < length cs.
            pending_data_m (snd (AdaptiveInt_calls C cs s1)) ! (nat (pending_pos_m s1) + k) =
              fst (pending_entry (cs ! k)) \<and>
            pending_valid_m (snd (AdaptiveInt_calls C cs s1)) ! (nat (pending_pos_m s1) + k) =
              snd (pending_entry (cs ! k)))"
  proof (rule Cons.IH)
    show "0 \<le> pending_pos_m s1" using Cons.prems(1) by (simp add: pos1)
    show "pending_pos_m s1 + int (length cs) < pending_size_m"
      using Cons.prems(2) by (simp add: pos1)
    show "length (pending_data_m s1) = nat pending_size_m"
      using Cons.prems(3) by (simp add: s1_def)
    show "length (pending_valid_m s1) = nat pending_size_m"
      using Cons.prems(4) by (simp add: s1_def)
  qed
  have d1: "pending_data_m s1 ! j =
            (if j = nat (pending_pos_m s) then fst (pending_entry c) else pending_data_m s ! j)"
    for j using inrange Cons.prems(3) by (simp add: s1_def nth_list_update)
  have v1: "pending_valid_m s1 ! j =
            (if j = nat (pending_pos_m s) then snd (pending_entry c) else pending_valid_m s ! j)"
    for j using inrange Cons.prems(4) by (simp add: s1_def nth_list_update)
  have below: "\<forall>j < nat (pending_pos_m s).
            pending_data_m (snd (AdaptiveInt_calls C cs s1)) ! j = pending_data_m s ! j \<and>
            pending_valid_m (snd (AdaptiveInt_calls C cs s1)) ! j = pending_valid_m s ! j"
    using IH by (simp add: npos1 d1 v1)
  have written: "\<forall>k < length (c # cs).
            pending_data_m (snd (AdaptiveInt_calls C cs s1)) ! (nat (pending_pos_m s) + k) =
              fst (pending_entry ((c # cs) ! k)) \<and>
            pending_valid_m (snd (AdaptiveInt_calls C cs s1)) ! (nat (pending_pos_m s) + k) =
              snd (pending_entry ((c # cs) ! k))"
  proof (intro allI impI)
    fix k assume k: "k < length (c # cs)"
    show "pending_data_m (snd (AdaptiveInt_calls C cs s1)) ! (nat (pending_pos_m s) + k) =
              fst (pending_entry ((c # cs) ! k)) \<and>
            pending_valid_m (snd (AdaptiveInt_calls C cs s1)) ! (nat (pending_pos_m s) + k) =
              snd (pending_entry ((c # cs) ! k))"
    proof (cases k)
      case 0
      then show ?thesis using IH by (simp add: npos1 d1 v1)
    next
      case (Suc k')
      then have "k' < length cs" using k by simp
      then show ?thesis using IH Suc by (simp add: npos1)
    qed
  qed
  have rest: "fst (AdaptiveInt_calls C cs s1) = OK \<and>
         ArrayBuilder.truncate (snd (AdaptiveInt_calls C cs s1)) = ArrayBuilder.truncate s \<and>
         AdaptiveIntBuilderBase.raw_data_m (snd (AdaptiveInt_calls C cs s1)) =
           AdaptiveIntBuilderBase.raw_data_m s \<and>
         int_size_m (snd (AdaptiveInt_calls C cs s1)) = int_size_m s \<and>
         pending_pos_m (snd (AdaptiveInt_calls C cs s1)) =
           pending_pos_m s + int (length (c # cs)) \<and>
         length (pending_data_m (snd (AdaptiveInt_calls C cs s1))) = nat pending_size_m \<and>
         length (pending_valid_m (snd (AdaptiveInt_calls C cs s1))) = nat pending_size_m"
    using IH by (simp add: s1_def ArrayBuilder.truncate_def)
  show ?case
    unfolding step using rest below written by blast
qed

lemma AdaptiveInt_calls_commit_unused:
  assumes "pending_pos_m s + int (length cs) < pending_size_m"
  shows "AdaptiveInt_calls C cs s = AdaptiveInt_calls C' cs s"
  using assms
proof (induction cs arbitrary: s)
  case Nil
  show ?case by simp
next
  case (Cons c cs)
  have "pending_pos_m s + 1 < pending_size_m" using Cons.prems by simp
  note call = AdaptiveInt_call_no_commit [OF this]
  show ?case
    using Cons.prems by (simp add: call Cons.IH)
qed


text \<open>
  C1. On an adaptive integer builder whose pending position is within the 1024 slots,
  Append(v) of the signed and of the unsigned builder and AppendNull write the slot at the
  pending position (pending_data, pending_valid, and pending_has_nulls for a null), advance
  the pending position and change nothing else; CommitPendingData is invoked, on that
  state, exactly when the pending position has reached 1024. So a sequence of scalar
  appends that does not fill the pending region returns OK at every call, never invokes
  CommitPendingData (the result does not depend on it), holds the appended entries in the
  pending slots, and leaves the committed state as it was: length, capacity, null_count,
  the bitmap, the data buffer and its element width do not reflect the pending entries.
\<close>

theorem AdaptiveInt_appends_stay_pending:
  assumes "0 \<le> pending_pos_m s"
    and "pending_pos_m s < pending_size_m"
    and "length (pending_data_m s) = nat pending_size_m"
    and "length (pending_valid_m s) = nat pending_size_m"
    and "pending_pos_m s + int (length cs) < pending_size_m"
  shows "(let s' = s\<lparr>pending_data_m := (pending_data_m s)[nat (pending_pos_m s) := word_of_int val],
                      pending_valid_m := (pending_valid_m s)[nat (pending_pos_m s) := 1],
                      pending_pos_m := pending_pos_m s + 1\<rparr>
          in AdaptiveIntBuilder_Append C val s =
               (if pending_pos_m s' = 1024 then C s' else (OK, s'))) \<and>
         (let s' = s\<lparr>pending_data_m := (pending_data_m s)[nat (pending_pos_m s) := uval],
                      pending_valid_m := (pending_valid_m s)[nat (pending_pos_m s) := 1],
                      pending_pos_m := pending_pos_m s + 1\<rparr>
          in AdaptiveUIntBuilder_Append C uval s =
               (if pending_pos_m s' = 1024 then C s' else (OK, s'))) \<and>
         (let s' = s\<lparr>pending_data_m := (pending_data_m s)[nat (pending_pos_m s) := 0],
                      pending_valid_m := (pending_valid_m s)[nat (pending_pos_m s) := 0],
                      pending_has_nulls_m := True,
                      pending_pos_m := pending_pos_m s + 1\<rparr>
          in AdaptiveIntBuilderBase_AppendNull C s =
               (if pending_pos_m s' = 1024 then C s' else (OK, s'))) \<and>
         fst (AdaptiveInt_calls C cs s) = OK \<and>
         AdaptiveInt_calls C cs s = AdaptiveInt_calls C' cs s \<and>
         length_m (snd (AdaptiveInt_calls C cs s)) = length_m s \<and>
         capacity_m (snd (AdaptiveInt_calls C cs s)) = capacity_m s \<and>
         null_count_m (snd (AdaptiveInt_calls C cs s)) = null_count_m s \<and>
         null_bitmap_data_m (snd (AdaptiveInt_calls C cs s)) = null_bitmap_data_m s \<and>
         AdaptiveIntBuilderBase.raw_data_m (snd (AdaptiveInt_calls C cs s)) =
           AdaptiveIntBuilderBase.raw_data_m s \<and>
         int_size_m (snd (AdaptiveInt_calls C cs s)) = int_size_m s \<and>
         pending_pos_m (snd (AdaptiveInt_calls C cs s)) = pending_pos_m s + int (length cs) \<and>
         (\<forall>k < length cs.
            pending_data_m (snd (AdaptiveInt_calls C cs s)) ! (nat (pending_pos_m s) + k) =
              fst (pending_entry (cs ! k)) \<and>
            pending_valid_m (snd (AdaptiveInt_calls C cs s)) ! (nat (pending_pos_m s) + k) =
              snd (pending_entry (cs ! k)))"
proof -
  have single: "(pending_pos_m s + 1 \<ge> pending_size_m) = (pending_pos_m s + 1 = 1024)"
    using assms(2) by (auto simp: pending_size_m_def)
  note seq = AdaptiveInt_calls_no_commit [OF assms(1) assms(5) assms(3) assms(4), of C]
  from seq have "ArrayBuilder.truncate (snd (AdaptiveInt_calls C cs s)) = ArrayBuilder.truncate s"
    by blast
  then have base: "length_m (snd (AdaptiveInt_calls C cs s)) = length_m s \<and>
         capacity_m (snd (AdaptiveInt_calls C cs s)) = capacity_m s \<and>
         null_count_m (snd (AdaptiveInt_calls C cs s)) = null_count_m s \<and>
         null_bitmap_data_m (snd (AdaptiveInt_calls C cs s)) = null_bitmap_data_m s"
    by (simp add: ArrayBuilder.truncate_def)
  have a1: "(let s' = s\<lparr>pending_data_m := (pending_data_m s)[nat (pending_pos_m s) := word_of_int val],
                      pending_valid_m := (pending_valid_m s)[nat (pending_pos_m s) := 1],
                      pending_pos_m := pending_pos_m s + 1\<rparr>
          in AdaptiveIntBuilder_Append C val s =
               (if pending_pos_m s' = 1024 then C s' else (OK, s')))"
    using single by (simp add: AdaptiveIntBuilder_Append_def Let_def)
  have a2: "(let s' = s\<lparr>pending_data_m := (pending_data_m s)[nat (pending_pos_m s) := uval],
                      pending_valid_m := (pending_valid_m s)[nat (pending_pos_m s) := 1],
                      pending_pos_m := pending_pos_m s + 1\<rparr>
          in AdaptiveUIntBuilder_Append C uval s =
               (if pending_pos_m s' = 1024 then C s' else (OK, s')))"
    using single by (simp add: AdaptiveUIntBuilder_Append_def Let_def)
  have a3: "(let s' = s\<lparr>pending_data_m := (pending_data_m s)[nat (pending_pos_m s) := 0],
                      pending_valid_m := (pending_valid_m s)[nat (pending_pos_m s) := 0],
                      pending_has_nulls_m := True,
                      pending_pos_m := pending_pos_m s + 1\<rparr>
          in AdaptiveIntBuilderBase_AppendNull C s =
               (if pending_pos_m s' = 1024 then C s' else (OK, s')))"
    using single by (simp add: AdaptiveIntBuilderBase_AppendNull_def Let_def)
  note indep = AdaptiveInt_calls_commit_unused [OF assms(5), of C C']
  from a1 a2 a3 seq base indep show ?thesis by blast
qed

theorem AdaptiveInt_appends_stay_pending_witness:
  "fst (AdaptiveInt_calls (\<lambda>s. (Invalid ''commit'', s))
          [Int_Append 300, Int_AppendNull, Int_Append (- 1)] example_AdaptiveIntBuilder) = OK \<and>
   length_m (snd (AdaptiveInt_calls (\<lambda>s. (Invalid ''commit'', s))
          [Int_Append 300, Int_AppendNull, Int_Append (- 1)] example_AdaptiveIntBuilder)) =
     length_m example_AdaptiveIntBuilder \<and>
   pending_pos_m (snd (AdaptiveInt_calls (\<lambda>s. (Invalid ''commit'', s))
          [Int_Append 300, Int_AppendNull, Int_Append (- 1)] example_AdaptiveIntBuilder)) =
     pending_pos_m example_AdaptiveIntBuilder + int (length [Int_Append 300, Int_AppendNull, Int_Append (- 1)]) \<and>
   take 3 (pending_data_m (snd (AdaptiveInt_calls (\<lambda>s. (Invalid ''commit'', s))
          [Int_Append 300, Int_AppendNull, Int_Append (- 1)] example_AdaptiveIntBuilder))) =
     [300, 0, 18446744073709551615] \<and>
   take 3 (pending_valid_m (snd (AdaptiveInt_calls (\<lambda>s. (Invalid ''commit'', s))
          [Int_Append 300, Int_AppendNull, Int_Append (- 1)] example_AdaptiveIntBuilder))) =
     [1, 0, 1] \<and>
   length_m example_AdaptiveIntBuilder = 1 \<and>
   fst (AdaptiveIntBuilder_Append (\<lambda>s. (Invalid ''commit'', s)) 5
          (example_AdaptiveIntBuilder\<lparr>pending_pos_m := 1023\<rparr>)) = Invalid ''commit'' \<and>
   fst (AdaptiveIntBuilder_Append (\<lambda>s. (Invalid ''commit'', s)) 5
          (example_AdaptiveIntBuilder\<lparr>pending_pos_m := 1022\<rparr>)) = OK"
proof -
  have h1: "0 \<le> pending_pos_m example_AdaptiveIntBuilder"
    by (simp add: example_AdaptiveIntBuilder_def)
  have h2: "pending_pos_m example_AdaptiveIntBuilder < pending_size_m"
    by (simp add: example_AdaptiveIntBuilder_def pending_size_m_def)
  have h3: "length (pending_data_m example_AdaptiveIntBuilder) = nat pending_size_m"
    by (simp add: example_AdaptiveIntBuilder_def pending_size_m_def)
  have h4: "length (pending_valid_m example_AdaptiveIntBuilder) = nat pending_size_m"
    by (simp add: example_AdaptiveIntBuilder_def pending_size_m_def)
  have h5: "pending_pos_m example_AdaptiveIntBuilder +
            int (length [Int_Append 300, Int_AppendNull, Int_Append (- 1)]) < pending_size_m"
    by (simp add: example_AdaptiveIntBuilder_def pending_size_m_def)
  have d: "take 3 (pending_data_m (snd (AdaptiveInt_calls (\<lambda>s. (Invalid ''commit'', s))
          [Int_Append 300, Int_AppendNull, Int_Append (- 1)] example_AdaptiveIntBuilder))) =
     [300, 0, 18446744073709551615]"
    by code_simp
  have v: "take 3 (pending_valid_m (snd (AdaptiveInt_calls (\<lambda>s. (Invalid ''commit'', s))
          [Int_Append 300, Int_AppendNull, Int_Append (- 1)] example_AdaptiveIntBuilder))) =
     [1, 0, 1]"
    by code_simp
  have l: "length_m example_AdaptiveIntBuilder = 1"
    by (simp add: example_AdaptiveIntBuilder_def)
  have c1: "fst (AdaptiveIntBuilder_Append (\<lambda>s. (Invalid ''commit'', s)) 5
          (example_AdaptiveIntBuilder\<lparr>pending_pos_m := 1023\<rparr>)) = Invalid ''commit''"
    by (simp add: AdaptiveIntBuilder_Append_def Let_def pending_size_m_def)
  have c2: "fst (AdaptiveIntBuilder_Append (\<lambda>s. (Invalid ''commit'', s)) 5
          (example_AdaptiveIntBuilder\<lparr>pending_pos_m := 1022\<rparr>)) = OK"
    by (simp add: AdaptiveIntBuilder_Append_def Let_def pending_size_m_def)
  from AdaptiveInt_appends_stay_pending [OF h1 h2 h3 h4 h5,
      where C = "\<lambda>s. (Invalid ''commit'', s)"] d v l c1 c2
  show ?thesis by blast
qed

subsection \<open>The null count and the validity bits\<close>

lemma NumericBuilder_UnsafeAppend_appended_bits:
  assumes "bitmap_invariant s" and "has_room 1 s"
  shows "appended_bits [True] s (NumericBuilder_UnsafeAppend val s)"
proof -
  have "appended_bits [True] s (NumericBuilder_UnsafeAppend val s) =
        appended_bits [True] s (UnsafeAppendToBitmap True s)"
    by (rule appended_bits_cong)
      (simp_all add: NumericBuilder_UnsafeAppend_def UnsafeAppendToBitmap_def Let_def)
  then show ?thesis
    using UnsafeAppendToBitmap_appended_bits [OF assms] by simp
qed

lemma BooleanBuilder_UnsafeAppend_appended_bits:
  assumes "bitmap_invariant s" and "has_room 1 s"
  shows "appended_bits [True] s (BooleanBuilder_UnsafeAppend val s)"
proof -
  have "appended_bits [True] s (BooleanBuilder_UnsafeAppend val s) =
        appended_bits [True] s (UnsafeAppendToBitmap True s)"
    by (rule appended_bits_cong)
      (simp_all add: BooleanBuilder_UnsafeAppend_def UnsafeAppendToBitmap_def Let_def)
  then show ?thesis
    using UnsafeAppendToBitmap_appended_bits [OF assms] by simp
qed

lemma BinaryBuilder_UnsafeAppend_appended_bits:
  assumes "bitmap_invariant s" and "has_room 1 s"
  shows "appended_bits [True] s (BinaryBuilder_UnsafeAppend val len s)"
    and "appended_bits [False] s (BinaryBuilder_UnsafeAppendNull s)"
proof -
  have "appended_bits [True] s (BinaryBuilder_UnsafeAppend val len s) =
        appended_bits [True] s (UnsafeAppendToBitmap True s)"
    by (rule appended_bits_cong)
      (simp_all add: BinaryBuilder_UnsafeAppend_def UnsafeAppendNextOffset_def
        UnsafeAppendToBitmap_def Let_def)
  then show "appended_bits [True] s (BinaryBuilder_UnsafeAppend val len s)"
    using UnsafeAppendToBitmap_appended_bits [OF assms] by simp
  have "appended_bits [False] s (BinaryBuilder_UnsafeAppendNull s) =
        appended_bits [False] s (UnsafeAppendToBitmap False s)"
    by (rule appended_bits_cong)
      (simp_all add: BinaryBuilder_UnsafeAppendNull_def UnsafeAppendToBitmap_def Let_def)
  then show "appended_bits [False] s (BinaryBuilder_UnsafeAppendNull s)"
    using UnsafeAppendToBitmap_appended_bits [OF assms] by simp
qed

lemma PrimitiveBuilder_AppendNull_appended_bits:
  assumes "Reserve 1 p = (OK, s)" and "bitmap_invariant s" and "has_room 1 s"
  shows "appended_OK [False] s (PrimitiveBuilder_AppendNull width Reserve p)"
proof -
  define s2 where "s2 = s\<lparr>PrimitiveBuilder.raw_data_m :=
      memset (PrimitiveBuilder.raw_data_m s) (nat (length_m s) * width) 0 width\<rparr>"
  have res: "PrimitiveBuilder_AppendNull width Reserve p = (OK, UnsafeAppendToBitmap False s2)"
    using assms(1) by (simp add: PrimitiveBuilder_AppendNull_def s2_def Let_def)
  have "appended_bits [False] s (UnsafeAppendToBitmap False s2) =
        appended_bits [False] s (UnsafeAppendToBitmap False s)"
    by (rule appended_bits_cong) (simp_all add: s2_def UnsafeAppendToBitmap_def Let_def)
  then show ?thesis
    using UnsafeAppendToBitmap_appended_bits [OF assms(2,3)]
    by (simp add: appended_OK_def res)
qed

lemma UnsafeAppendToBitmap_iter_base:
  assumes "null_bitmap_data_m t = null_bitmap_data_m s"
    and "null_count_m t = null_count_m s"
    and "length_m t = length_m s"
  shows "null_bitmap_data_m (UnsafeAppendToBitmap_iter vs t) =
           null_bitmap_data_m (UnsafeAppendToBitmap_iter vs s) \<and>
         null_count_m (UnsafeAppendToBitmap_iter vs t) =
           null_count_m (UnsafeAppendToBitmap_iter vs s) \<and>
         length_m (UnsafeAppendToBitmap_iter vs t) = length_m (UnsafeAppendToBitmap_iter vs s)"
  by (simp add: UnsafeAppendToBitmap_iter_def Let_def assms split: prod.splits)

lemma PrimitiveBuilder_AppendValues_appended_bits:
  assumes "Reserve (int (length values)) p = (OK, s)" and "bitmap_invariant s"
    and "has_room (length values) s" and "length values \<le> length valid"
  shows "appended_OK (take (length values) valid) s
           (PrimitiveBuilder_AppendValues width Reserve values valid p)"
proof -
  define s2 where "s2 = s\<lparr>PrimitiveBuilder.raw_data_m :=
      store (PrimitiveBuilder.raw_data_m s) (nat (length_m s) * width) (concat values)\<rparr>"
  define vs where "vs = take (length values) valid"
  have len: "length vs = length values"
    using assms(4) by (simp add: vs_def)
  have res: "PrimitiveBuilder_AppendValues width Reserve values valid p =
             (OK, UnsafeAppendToBitmap_iter vs s2)"
    using assms(1) by (simp add: PrimitiveBuilder_AppendValues_def s2_def vs_def Let_def)
  have "appended_bits vs s (UnsafeAppendToBitmap_iter vs s2) =
        appended_bits vs s (UnsafeAppendToBitmap_iter vs s)"
    using UnsafeAppendToBitmap_iter_base [of s2 s vs]
    by (intro appended_bits_cong) (simp_all add: s2_def)
  then show ?thesis
    using UnsafeAppendToBitmap_iter_appended_bits [OF assms(2), of vs] assms(3)
    by (simp add: appended_OK_def res len flip: vs_def)
qed

lemma FixedSizeBinaryBuilder_Append_appended_bits:
  assumes "Reserve 1 p = (OK, s)" and "bitmap_invariant s" and "has_room 1 s"
  shows "appended_bits [True] s (snd (FixedSizeBinaryBuilder_Append Reserve R val p))"
proof -
  have "appended_bits [True] s (snd (FixedSizeBinaryBuilder_Append Reserve R val p)) =
        appended_bits [True] s (UnsafeAppendToBitmap True s)"
    using assms(1)
    by (intro appended_bits_cong)
      (simp_all add: FixedSizeBinaryBuilder_Append_def Let_def split: prod.splits)
  then show ?thesis
    using UnsafeAppendToBitmap_appended_bits [OF assms(2,3)] by simp
qed

lemma AdaptiveInt_call_appended_bits:
  assumes "bitmap_invariant s" and "pending_pos_m s + 1 < pending_size_m"
  shows "appended_OK [] s (AdaptiveInt_call C c s)"
  unfolding appended_OK_def AdaptiveInt_call_no_commit [OF assms(2)]
  using assms(1) by (simp add: appended_bits_nil)

text \<open>
  C4, as stated, fails in two ways. A NullBuilder has no validity bitmap and counts every
  element as a null: after one successful AppendNull on the constructed builder null_count
  is 1, and there is no bitmap, so no zero bit below length. And a null is appended by
  counting it, without writing its bit: on a PrimitiveBuilder of length 2 that satisfies
  the equation (no null, the bits 0 and 1 set) and whose bit of index 2 is set, AppendNull
  returns OK and leaves null_count 1 with no zero bit among the bits 0 to 2. The equation
  alone is not kept by the appends.
\<close>

theorem null_count_not_zero_bits_counterexample:
  "NullBuilder_AppendNull ArrayBuilder_ctor =
     (OK, \<lparr>null_bitmap_data_m = [], null_count_m = 1, length_m = 1, capacity_m = 0\<rparr>) \<and>
   count_zero_bits (null_bitmap_data_m (snd (NullBuilder_AppendNull ArrayBuilder_ctor)))
     (nat (length_m (snd (NullBuilder_AppendNull ArrayBuilder_ctor)))) = 0 \<and>
   \<not> null_count_is_zero_bits (snd (NullBuilder_AppendNull ArrayBuilder_ctor)) \<and>
   null_count_is_zero_bits example_PrimitiveBuilder_bit_set \<and>
   fst (PrimitiveBuilder_AppendNull 4 (\<lambda>n s. (OK, s)) example_PrimitiveBuilder_bit_set) = OK \<and>
   null_count_m
     (snd (PrimitiveBuilder_AppendNull 4 (\<lambda>n s. (OK, s)) example_PrimitiveBuilder_bit_set)) = 1 \<and>
   length_m
     (snd (PrimitiveBuilder_AppendNull 4 (\<lambda>n s. (OK, s)) example_PrimitiveBuilder_bit_set)) = 3 \<and>
   null_bitmap_data_m
     (snd (PrimitiveBuilder_AppendNull 4 (\<lambda>n s. (OK, s)) example_PrimitiveBuilder_bit_set)) =
     [7, 0, 0, 0] \<and>
   count_zero_bits [7, 0, 0, 0] 3 = 0 \<and>
   \<not> null_count_is_zero_bits
       (snd (PrimitiveBuilder_AppendNull 4 (\<lambda>n s. (OK, s)) example_PrimitiveBuilder_bit_set))"
  by code_simp

text \<open>
  C4, amended. For the builders that have a validity bitmap, the invariant of the null
  bitmap is: null_count is the number of zero bits of the validity bitmap at the positions
  0 to length (exclusive), and the bits from length to the end of the allocated bitmap are
  zero. It holds for the constructed builder. Every append that builder.h defines keeps it
  when it succeeds on a builder that satisfies it and whose bitmap has room for the bits
  appended (for an append that begins with Reserve, the builder that Reserve returned), and
  appends exactly its validity bits: length grows by the number of bits, null_count by the
  number of invalid ones, each bit is recorded at its position from the old length on, and
  the bits below the old length are unchanged. The single-bit append appends its argument,
  UnsafeAppendNull an invalid bit, the iterator-based append the elements of its range;
  StructBuilder::Append(is_valid) appends is_valid and StructBuilder::AppendNull an invalid
  bit; NumericBuilder::UnsafeAppend and Append, BooleanBuilder::UnsafeAppend and Append (for
  bool and for uint8_t), BinaryBuilder::UnsafeAppend and FixedSizeBinaryBuilder::Append
  append a valid bit; PrimitiveBuilder::AppendNull, BooleanBuilder::AppendNull and
  BinaryBuilder::UnsafeAppendNull append an invalid bit; the iterator-based
  PrimitiveBuilder::AppendValues appends the first validity flags, as many as there are
  values; a scalar append of an adaptive integer builder that does not fill the pending
  region appends nothing (it changes neither length, null_count nor the bitmap).
\<close>

theorem null_count_counts_zero_bits:
  "bitmap_invariant ArrayBuilder_ctor \<and>
   (bitmap_invariant s \<and> has_room 1 s \<longrightarrow>
      appended_bits [b] s (UnsafeAppendToBitmap b s) \<and>
      appended_bits [False] s (UnsafeAppendNull s)) \<and>
   (bitmap_invariant s \<and> has_room (length vs) s \<longrightarrow>
      appended_bits vs s (UnsafeAppendToBitmap_iter vs s)) \<and>
   (Reserve 1 t = (OK, s) \<and> bitmap_invariant s \<and> has_room 1 s \<longrightarrow>
      appended_OK [b] s (StructBuilder_Append Reserve b t) \<and>
      appended_OK [False] s (StructBuilder_AppendNull Reserve t)) \<and>
   (bitmap_invariant sp \<and> has_room 1 sp \<longrightarrow>
      appended_bits [True] sp (NumericBuilder_UnsafeAppend val sp)) \<and>
   (Reserve_p 1 tp = (OK, sp) \<and> bitmap_invariant sp \<and> has_room 1 sp \<longrightarrow>
      appended_OK [True] sp (NumericBuilder_Append Reserve_p val tp) \<and>
      appended_OK [False] sp (PrimitiveBuilder_AppendNull width Reserve_p tp)) \<and>
   (Reserve_p (int (length vals)) tq = (OK, sp) \<and> bitmap_invariant sp \<and>
    has_room (length vals) sp \<and> length vals \<le> length valid \<longrightarrow>
      appended_OK (take (length vals) valid) sp
        (PrimitiveBuilder_AppendValues width Reserve_p vals valid tq)) \<and>
   (bitmap_invariant sb \<and> has_room 1 sb \<longrightarrow>
      appended_bits [True] sb (BooleanBuilder_UnsafeAppend v sb) \<and>
      appended_bits [True] sb (BooleanBuilder_UnsafeAppend_uint8 u sb)) \<and>
   (Reserve_b 1 tb = (OK, sb) \<and> bitmap_invariant sb \<and> has_room 1 sb \<longrightarrow>
      appended_OK [True] sb (BooleanBuilder_Append Reserve_b v tb) \<and>
      appended_OK [True] sb (BooleanBuilder_Append_uint8 Reserve_b u tb) \<and>
      appended_OK [False] sb (BooleanBuilder_AppendNull Reserve_b tb)) \<and>
   (bitmap_invariant sn \<and> has_room 1 sn \<longrightarrow>
      appended_bits [True] sn (BinaryBuilder_UnsafeAppend bytes len sn) \<and>
      appended_bits [False] sn (BinaryBuilder_UnsafeAppendNull sn)) \<and>
   (Reserve_f 1 tf = (OK, sf) \<and> bitmap_invariant sf \<and> has_room 1 sf \<and>
    fst (FixedSizeBinaryBuilder_Append Reserve_f byte_builder_Append bytes tf) = OK \<longrightarrow>
      appended_OK [True] sf (FixedSizeBinaryBuilder_Append Reserve_f byte_builder_Append bytes tf)) \<and>
   (bitmap_invariant sa \<and> pending_pos_m sa + 1 < pending_size_m \<longrightarrow>
      appended_OK [] sa (AdaptiveInt_call CommitPendingData c sa))"
proof -
  have c1: "bitmap_invariant ArrayBuilder_ctor"
    by (simp add: bitmap_invariant_def null_count_is_zero_bits_def unused_bits_zero_def
        count_zero_bits_def ArrayBuilder_ctor_def)
  have c2: "bitmap_invariant s \<and> has_room 1 s \<longrightarrow>
      appended_bits [b] s (UnsafeAppendToBitmap b s) \<and>
      appended_bits [False] s (UnsafeAppendNull s)"
    by (simp add: UnsafeAppendToBitmap_appended_bits UnsafeAppendNull_def)
  have c3: "bitmap_invariant s \<and> has_room (length vs) s \<longrightarrow>
      appended_bits vs s (UnsafeAppendToBitmap_iter vs s)"
    by (simp add: UnsafeAppendToBitmap_iter_appended_bits)
  have c4: "Reserve 1 t = (OK, s) \<and> bitmap_invariant s \<and> has_room 1 s \<longrightarrow>
      appended_OK [b] s (StructBuilder_Append Reserve b t) \<and>
      appended_OK [False] s (StructBuilder_AppendNull Reserve t)"
    by (simp add: appended_OK_def StructBuilder_Append_def StructBuilder_AppendNull_def
        UnsafeAppendToBitmap_appended_bits)
  have c5: "bitmap_invariant sp \<and> has_room 1 sp \<longrightarrow>
      appended_bits [True] sp (NumericBuilder_UnsafeAppend val sp)"
    by (simp add: NumericBuilder_UnsafeAppend_appended_bits)
  have c6: "Reserve_p 1 tp = (OK, sp) \<and> bitmap_invariant sp \<and> has_room 1 sp \<longrightarrow>
      appended_OK [True] sp (NumericBuilder_Append Reserve_p val tp) \<and>
      appended_OK [False] sp (PrimitiveBuilder_AppendNull width Reserve_p tp)"
    by (simp add: PrimitiveBuilder_AppendNull_appended_bits)
      (simp add: appended_OK_def NumericBuilder_Append_def
        NumericBuilder_UnsafeAppend_appended_bits)
  have c7: "Reserve_p (int (length vals)) tq = (OK, sp) \<and> bitmap_invariant sp \<and>
    has_room (length vals) sp \<and> length vals \<le> length valid \<longrightarrow>
      appended_OK (take (length vals) valid) sp
        (PrimitiveBuilder_AppendValues width Reserve_p vals valid tq)"
    by (simp add: PrimitiveBuilder_AppendValues_appended_bits)
  have c8: "bitmap_invariant sb \<and> has_room 1 sb \<longrightarrow>
      appended_bits [True] sb (BooleanBuilder_UnsafeAppend v sb) \<and>
      appended_bits [True] sb (BooleanBuilder_UnsafeAppend_uint8 u sb)"
    by (simp add: BooleanBuilder_UnsafeAppend_appended_bits BooleanBuilder_UnsafeAppend_uint8_def)
  have c9: "Reserve_b 1 tb = (OK, sb) \<and> bitmap_invariant sb \<and> has_room 1 sb \<longrightarrow>
      appended_OK [True] sb (BooleanBuilder_Append Reserve_b v tb) \<and>
      appended_OK [True] sb (BooleanBuilder_Append_uint8 Reserve_b u tb) \<and>
      appended_OK [False] sb (BooleanBuilder_AppendNull Reserve_b tb)"
    by (simp add: appended_OK_def BooleanBuilder_Append_def BooleanBuilder_Append_uint8_def
        BooleanBuilder_AppendNull_def BooleanBuilder_UnsafeAppend_appended_bits
        UnsafeAppendToBitmap_appended_bits)
  have c10: "bitmap_invariant sn \<and> has_room 1 sn \<longrightarrow>
      appended_bits [True] sn (BinaryBuilder_UnsafeAppend bytes len sn) \<and>
      appended_bits [False] sn (BinaryBuilder_UnsafeAppendNull sn)"
    by (simp add: BinaryBuilder_UnsafeAppend_appended_bits)
  have c11: "Reserve_f 1 tf = (OK, sf) \<and> bitmap_invariant sf \<and> has_room 1 sf \<and>
    fst (FixedSizeBinaryBuilder_Append Reserve_f byte_builder_Append bytes tf) = OK \<longrightarrow>
      appended_OK [True] sf (FixedSizeBinaryBuilder_Append Reserve_f byte_builder_Append bytes tf)"
    by (simp add: appended_OK_def FixedSizeBinaryBuilder_Append_appended_bits)
  have c12: "bitmap_invariant sa \<and> pending_pos_m sa + 1 < pending_size_m \<longrightarrow>
      appended_OK [] sa (AdaptiveInt_call CommitPendingData c sa)"
    by (simp add: AdaptiveInt_call_appended_bits)
  show ?thesis
    by (intro conjI) (fact c1 c2 c3 c4 c5 c6 c7 c8 c9 c10 c11 c12)+
qed

theorem null_count_counts_zero_bits_witness:
  "bitmap_invariant example_ArrayBuilder \<and> has_room 1 example_ArrayBuilder \<and>
   has_room 5 example_ArrayBuilder \<and>
   bitmap_invariant example_PrimitiveBuilder \<and> has_room 1 example_PrimitiveBuilder \<and>
   has_room 2 example_PrimitiveBuilder \<and>
   bitmap_invariant example_BooleanBuilder \<and> has_room 1 example_BooleanBuilder \<and>
   bitmap_invariant example_BinaryBuilder \<and> has_room 1 example_BinaryBuilder \<and>
   bitmap_invariant example_FixedSizeBinaryBuilder \<and>
   has_room 1 example_FixedSizeBinaryBuilder \<and>
   fst (FixedSizeBinaryBuilder_Append (\<lambda>n s. (OK, s)) (\<lambda>v n b. (OK, b\<lparr>buffer_bytes := buffer_bytes b @ take (nat n) v\<rparr>))
          [1, 2, 3, 4]
          example_FixedSizeBinaryBuilder) = OK \<and>
   bitmap_invariant example_AdaptiveIntBuilder \<and>
   pending_pos_m example_AdaptiveIntBuilder + 1 < pending_size_m \<and>
   UnsafeAppendToBitmap False example_ArrayBuilder =
     \<lparr>null_bitmap_data_m = [43, 0, 0, 0], null_count_m = 3, length_m = 7, capacity_m = 32\<rparr> \<and>
   UnsafeAppendToBitmap_iter [True, False, True, True, False] example_ArrayBuilder =
     \<lparr>null_bitmap_data_m = [107, 3, 0, 0], null_count_m = 4, length_m = 11, capacity_m = 32\<rparr> \<and>
   appended_bits [False] example_ArrayBuilder (UnsafeAppendToBitmap False example_ArrayBuilder) \<and>
   appended_bits [True, False, True, True, False] example_ArrayBuilder
     (UnsafeAppendToBitmap_iter [True, False, True, True, False] example_ArrayBuilder) \<and>
   appended_OK [False] example_ArrayBuilder
     (StructBuilder_Append (\<lambda>n s. (OK, s)) False example_ArrayBuilder) \<and>
   appended_OK [True] example_PrimitiveBuilder
     (NumericBuilder_Append (\<lambda>n s. (OK, s)) [9, 0, 0, 0] example_PrimitiveBuilder) \<and>
   appended_OK [False] example_PrimitiveBuilder
     (PrimitiveBuilder_AppendNull 4 (\<lambda>n s. (OK, s)) example_PrimitiveBuilder) \<and>
   appended_OK [False, True] example_PrimitiveBuilder
     (PrimitiveBuilder_AppendValues 4 (\<lambda>n s. (OK, s)) [[5, 0, 0, 0], [6, 0, 0, 0]]
        [False, True, True] example_PrimitiveBuilder) \<and>
   appended_OK [True] example_BooleanBuilder
     (BooleanBuilder_Append (\<lambda>n s. (OK, s)) False example_BooleanBuilder) \<and>
   appended_OK [False] example_BooleanBuilder
     (BooleanBuilder_AppendNull (\<lambda>n s. (OK, s)) example_BooleanBuilder) \<and>
   appended_bits [False] example_BinaryBuilder
     (BinaryBuilder_UnsafeAppendNull example_BinaryBuilder) \<and>
   appended_OK [True] example_FixedSizeBinaryBuilder
     (FixedSizeBinaryBuilder_Append (\<lambda>n s. (OK, s)) (\<lambda>v n b. (OK, b\<lparr>buffer_bytes := buffer_bytes b @ take (nat n) v\<rparr>))
          [1, 2, 3, 4]
        example_FixedSizeBinaryBuilder) \<and>
   appended_OK [] example_AdaptiveIntBuilder
     (AdaptiveInt_call (\<lambda>s. (OK, s)) Int_AppendNull example_AdaptiveIntBuilder)"
proof -
  have h: "bitmap_invariant example_ArrayBuilder" "has_room 1 example_ArrayBuilder"
    "has_room 5 example_ArrayBuilder"
    "bitmap_invariant example_PrimitiveBuilder" "has_room 1 example_PrimitiveBuilder"
    "has_room 2 example_PrimitiveBuilder"
    "bitmap_invariant example_BooleanBuilder" "has_room 1 example_BooleanBuilder"
    "bitmap_invariant example_BinaryBuilder" "has_room 1 example_BinaryBuilder"
    "bitmap_invariant example_FixedSizeBinaryBuilder"
    "has_room 1 example_FixedSizeBinaryBuilder"
    "fst (FixedSizeBinaryBuilder_Append (\<lambda>n s. (OK, s)) (\<lambda>v n b. (OK, b\<lparr>buffer_bytes := buffer_bytes b @ take (nat n) v\<rparr>))
          [1, 2, 3, 4]
          example_FixedSizeBinaryBuilder) = OK"
    "bitmap_invariant example_AdaptiveIntBuilder"
    "pending_pos_m example_AdaptiveIntBuilder + 1 < pending_size_m"
    by code_simp+
  have e: "UnsafeAppendToBitmap False example_ArrayBuilder =
     \<lparr>null_bitmap_data_m = [43, 0, 0, 0], null_count_m = 3, length_m = 7, capacity_m = 32\<rparr>"
    "UnsafeAppendToBitmap_iter [True, False, True, True, False] example_ArrayBuilder =
     \<lparr>null_bitmap_data_m = [107, 3, 0, 0], null_count_m = 4, length_m = 11, capacity_m = 32\<rparr>"
    by code_simp+
  have l: "length [True, False, True, True, False] = 5"
    "length [[5, 0, 0, 0], [6, 0, 0, 0 :: uint8_t]] = 2"
    "take 2 [False, True, True] = [False, True]"
    "(2 :: nat) \<le> length [False, True, True]"
    by simp_all
  note inst = null_count_counts_zero_bits
    [where s = example_ArrayBuilder and t = example_ArrayBuilder
       and Reserve = "\<lambda>n s. (OK, s)" and b = False and vs = "[True, False, True, True, False]"
       and sp = example_PrimitiveBuilder and tp = example_PrimitiveBuilder
       and tq = example_PrimitiveBuilder and Reserve_p = "\<lambda>n s. (OK, s)"
       and val = "[9, 0, 0, 0]" and width = 4
       and vals = "[[5, 0, 0, 0], [6, 0, 0, 0]]" and valid = "[False, True, True]"
       and sb = example_BooleanBuilder and tb = example_BooleanBuilder
       and Reserve_b = "\<lambda>n s. (OK, s)" and v = False and u = 0
       and sn = example_BinaryBuilder and bytes = "[1, 2, 3, 4]" and len = 4
       and sf = example_FixedSizeBinaryBuilder and tf = example_FixedSizeBinaryBuilder
       and Reserve_f = "\<lambda>n s. (OK, s)"
       and byte_builder_Append =
         "\<lambda>v n b. (OK, b\<lparr>buffer_bytes := buffer_bytes b @ take (nat n) v\<rparr>)"
       and sa = example_AdaptiveIntBuilder and CommitPendingData = "\<lambda>s. (OK, s)"
       and c = Int_AppendNull, unfolded l]
  from inst h have r:
    "appended_bits [False] example_ArrayBuilder (UnsafeAppendToBitmap False example_ArrayBuilder) \<and>
   appended_bits [True, False, True, True, False] example_ArrayBuilder
     (UnsafeAppendToBitmap_iter [True, False, True, True, False] example_ArrayBuilder) \<and>
   appended_OK [False] example_ArrayBuilder
     (StructBuilder_Append (\<lambda>n s. (OK, s)) False example_ArrayBuilder) \<and>
   appended_OK [True] example_PrimitiveBuilder
     (NumericBuilder_Append (\<lambda>n s. (OK, s)) [9, 0, 0, 0] example_PrimitiveBuilder) \<and>
   appended_OK [False] example_PrimitiveBuilder
     (PrimitiveBuilder_AppendNull 4 (\<lambda>n s. (OK, s)) example_PrimitiveBuilder) \<and>
   appended_OK [False, True] example_PrimitiveBuilder
     (PrimitiveBuilder_AppendValues 4 (\<lambda>n s. (OK, s)) [[5, 0, 0, 0], [6, 0, 0, 0]]
        [False, True, True] example_PrimitiveBuilder) \<and>
   appended_OK [True] example_BooleanBuilder
     (BooleanBuilder_Append (\<lambda>n s. (OK, s)) False example_BooleanBuilder) \<and>
   appended_OK [False] example_BooleanBuilder
     (BooleanBuilder_AppendNull (\<lambda>n s. (OK, s)) example_BooleanBuilder) \<and>
   appended_bits [False] example_BinaryBuilder
     (BinaryBuilder_UnsafeAppendNull example_BinaryBuilder) \<and>
   appended_OK [True] example_FixedSizeBinaryBuilder
     (FixedSizeBinaryBuilder_Append (\<lambda>n s. (OK, s)) (\<lambda>v n b. (OK, b\<lparr>buffer_bytes := buffer_bytes b @ take (nat n) v\<rparr>))
          [1, 2, 3, 4]
        example_FixedSizeBinaryBuilder) \<and>
   appended_OK [] example_AdaptiveIntBuilder
     (AdaptiveInt_call (\<lambda>s. (OK, s)) Int_AppendNull example_AdaptiveIntBuilder)"
    by simp
  from h e r show ?thesis
    by blast
qed

subsection \<open>Appends that return an error\<close>

lemma Resize_error_unchanged:
  "fst (Resize realloc capacity s) \<noteq> OK \<Longrightarrow> snd (Resize realloc capacity s) = s"
  by (auto simp: Resize_def Let_def split: prod.splits if_splits)

lemma ArrayBuilder_Reserve_error_unchanged:
  "fst (ArrayBuilder_Reserve realloc n s) \<noteq> OK \<Longrightarrow> snd (ArrayBuilder_Reserve realloc n s) = s"
  using Resize_error_unchanged [of realloc _ s]
  by (auto simp: ArrayBuilder_Reserve_def split: if_splits)

lemma error_only_from_Reserve:
  assumes "\<And>st s1. r = (st, s1) \<Longrightarrow> res = (if st \<noteq> OK then (st, s1) else (OK, f s1))"
  shows "error_only_from r res"
  using assms [of "fst r" "snd r"] by (simp add: error_only_from_def)

text \<open>
  C2, as stated, fails for AdaptiveIntBuilderBase::AppendNulls, which commits the pending
  entries before it reserves room for the nulls. On a builder with one committed element,
  two pending entries (5 and 6) and a capacity of 32, with a memory pool that has no memory
  left, AppendNulls(NULLPTR, 100) commits the two entries without reallocation, then fails
  in Reserve(100) and returns OutOfMemory: length is 3 where it was 1 before the call, the
  validity bits and the data of the two entries are in the committed buffers and the pending
  region is empty.
\<close>

theorem AdaptiveIntBuilderBase_AppendNulls_error_after_commit:
  "length_m example_AdaptiveIntBuilder_pending = 1 \<and>
   pending_pos_m example_AdaptiveIntBuilder_pending = 2 \<and>
   null_bitmap_data_m example_AdaptiveIntBuilder_pending = [1, 0, 0, 0] \<and>
   take 3 (AdaptiveIntBuilderBase.raw_data_m example_AdaptiveIntBuilder_pending) = [7, 0, 0] \<and>
   fst (AdaptiveIntBuilderBase_AppendNulls
          (AdaptiveUIntBuilder_CommitPendingData (ArrayBuilder_Reserve realloc_fails)
             realloc_fails)
          (ArrayBuilder_Reserve realloc_fails) None 100 example_AdaptiveIntBuilder_pending) =
     OutOfMemory ''malloc failed'' \<and>
   length_m
     (snd (AdaptiveIntBuilderBase_AppendNulls
          (AdaptiveUIntBuilder_CommitPendingData (ArrayBuilder_Reserve realloc_fails)
             realloc_fails)
          (ArrayBuilder_Reserve realloc_fails) None 100 example_AdaptiveIntBuilder_pending)) =
     3 \<and>
   pending_pos_m
     (snd (AdaptiveIntBuilderBase_AppendNulls
          (AdaptiveUIntBuilder_CommitPendingData (ArrayBuilder_Reserve realloc_fails)
             realloc_fails)
          (ArrayBuilder_Reserve realloc_fails) None 100 example_AdaptiveIntBuilder_pending)) =
     0 \<and>
   null_bitmap_data_m
     (snd (AdaptiveIntBuilderBase_AppendNulls
          (AdaptiveUIntBuilder_CommitPendingData (ArrayBuilder_Reserve realloc_fails)
             realloc_fails)
          (ArrayBuilder_Reserve realloc_fails) None 100 example_AdaptiveIntBuilder_pending)) =
     [7, 0, 0, 0] \<and>
   take 3 (AdaptiveIntBuilderBase.raw_data_m
     (snd (AdaptiveIntBuilderBase_AppendNulls
          (AdaptiveUIntBuilder_CommitPendingData (ArrayBuilder_Reserve realloc_fails)
             realloc_fails)
          (ArrayBuilder_Reserve realloc_fails) None 100 example_AdaptiveIntBuilder_pending))) =
     [7, 5, 6]"
  by code_simp

text \<open>
  C2, amended. An append of builder.h that begins with Reserve returns an error exactly when
  Reserve does, and then returns the status and the builder that Reserve returned, with no
  effect of its own: StructBuilder::Append, AppendNull and AppendValues,
  NumericBuilder::Append, PrimitiveBuilder::AppendNull and the iterator-based AppendValues,
  BooleanBuilder::Append (for bool and for uint8_t), AppendNull and AppendNulls. Reserve
  leaves the builder as it was when it fails, so after such an error the builder is exactly
  as before the call. FixedSizeBinaryBuilder::Append(value) returns what Reserve(1) returned
  when that fails; when Reserve(1) succeeds and the byte builder has room for byte_width
  more bytes, it returns OK, with the valid bit and the bytes appended. A scalar append of an
  adaptive integer builder returns OK while the pending region has room for one more entry
  after it, and returns an error only if CommitPendingData does.
  AdaptiveIntBuilderBase::AppendNulls returns what CommitPendingData returned when that
  fails; when the commit succeeds it returns an error exactly when Reserve does, with the
  status and the builder that Reserve returned: the builder is then in its committed state,
  in which length has grown by the number of pending entries, and none of the nulls is
  appended.
\<close>

theorem fallible_append_error_state:
  "error_only_from (Reserve 1 t) (StructBuilder_Append Reserve b t) \<and>
   error_only_from (Reserve 1 t) (StructBuilder_AppendNull Reserve t) \<and>
   error_only_from (Reserve n t) (StructBuilder_AppendValues Reserve n valid_bytes t) \<and>
   error_only_from (Reserve_p 1 tp) (NumericBuilder_Append Reserve_p val tp) \<and>
   error_only_from (Reserve_p 1 tp) (PrimitiveBuilder_AppendNull width Reserve_p tp) \<and>
   error_only_from (Reserve_p (int (length vals)) tp)
     (PrimitiveBuilder_AppendValues width Reserve_p vals valid tp) \<and>
   error_only_from (Reserve_b 1 tb) (BooleanBuilder_Append Reserve_b v tb) \<and>
   error_only_from (Reserve_b 1 tb) (BooleanBuilder_Append_uint8 Reserve_b u tb) \<and>
   error_only_from (Reserve_b 1 tb) (BooleanBuilder_AppendNull Reserve_b tb) \<and>
   error_only_from (Reserve_b n tb) (BooleanBuilder_AppendNulls Reserve_b valid_bytes n tb) \<and>
   (fst (ArrayBuilder_Reserve realloc n t) \<noteq> OK \<longrightarrow>
      snd (ArrayBuilder_Reserve realloc n t) = t) \<and>
   (fst (Reserve_f 1 tf) \<noteq> OK \<longrightarrow>
      FixedSizeBinaryBuilder_Append Reserve_f (BufferBuilder_Append buffer_Resize) bytes tf = Reserve_f 1 tf) \<and>
   (Reserve_f 1 tf = (OK, sf) \<and>
    byte_width_m sf + int (length (buffer_bytes (byte_builder_m sf))) \<le>
      buffer_capacity (byte_builder_m sf) \<longrightarrow>
      FixedSizeBinaryBuilder_Append Reserve_f (BufferBuilder_Append buffer_Resize) bytes tf =
        (OK, (UnsafeAppendToBitmap True sf)
               \<lparr>byte_builder_m := (byte_builder_m sf)
                  \<lparr>buffer_bytes := buffer_bytes (byte_builder_m sf) @
                                    take (nat (byte_width_m sf)) bytes\<rparr>\<rparr>)) \<and>
   (pending_pos_m ta + 1 < pending_size_m \<longrightarrow>
      fst (AdaptiveInt_call CommitPendingData c ta) = OK) \<and>
   ((\<forall>s. fst (CommitPendingData s) = OK) \<longrightarrow>
      fst (AdaptiveInt_call CommitPendingData c ta) = OK) \<and>
   (fst (CommitPendingData ta) \<noteq> OK \<longrightarrow>
      AdaptiveIntBuilderBase_AppendNulls CommitPendingData Reserve_a valid_bytes n ta =
        CommitPendingData ta) \<and>
   (CommitPendingData ta = (OK, sa) \<longrightarrow>
      error_only_from (Reserve_a n sa)
        (AdaptiveIntBuilderBase_AppendNulls CommitPendingData Reserve_a valid_bytes n ta))"
proof -
  have c1: "error_only_from (Reserve 1 t) (StructBuilder_Append Reserve b t)"
    by (rule error_only_from_Reserve) (simp add: StructBuilder_Append_def)
  have c2: "error_only_from (Reserve 1 t) (StructBuilder_AppendNull Reserve t)"
    by (rule error_only_from_Reserve)
      (simp add: StructBuilder_AppendNull_def StructBuilder_Append_def)
  have c3: "error_only_from (Reserve n t) (StructBuilder_AppendValues Reserve n valid_bytes t)"
    by (rule error_only_from_Reserve) (simp add: StructBuilder_AppendValues_def)
  have c4: "error_only_from (Reserve_p 1 tp) (NumericBuilder_Append Reserve_p val tp)"
    by (rule error_only_from_Reserve) (simp add: NumericBuilder_Append_def)
  have c5: "error_only_from (Reserve_p 1 tp) (PrimitiveBuilder_AppendNull width Reserve_p tp)"
    by (simp add: error_only_from_def PrimitiveBuilder_AppendNull_def Let_def
        split: prod.splits)
  have c6: "error_only_from (Reserve_p (int (length vals)) tp)
     (PrimitiveBuilder_AppendValues width Reserve_p vals valid tp)"
    by (simp add: error_only_from_def PrimitiveBuilder_AppendValues_def Let_def
        split: prod.splits)
  have c7: "error_only_from (Reserve_b 1 tb) (BooleanBuilder_Append Reserve_b v tb)"
    for v
    by (rule error_only_from_Reserve) (simp add: BooleanBuilder_Append_def)
  have c8: "error_only_from (Reserve_b 1 tb) (BooleanBuilder_Append_uint8 Reserve_b u tb)"
    by (simp add: BooleanBuilder_Append_uint8_def c7)
  have c9: "error_only_from (Reserve_b 1 tb) (BooleanBuilder_AppendNull Reserve_b tb)"
    by (rule error_only_from_Reserve) (simp add: BooleanBuilder_AppendNull_def)
  have c10: "error_only_from (Reserve_b n tb)
     (BooleanBuilder_AppendNulls Reserve_b valid_bytes n tb)"
    by (rule error_only_from_Reserve) (simp add: BooleanBuilder_AppendNulls_def)
  have c11: "fst (ArrayBuilder_Reserve realloc n t) \<noteq> OK \<longrightarrow>
      snd (ArrayBuilder_Reserve realloc n t) = t"
    by (simp add: ArrayBuilder_Reserve_error_unchanged)
  have c12: "fst (Reserve_f 1 tf) \<noteq> OK \<longrightarrow>
      FixedSizeBinaryBuilder_Append Reserve_f (BufferBuilder_Append buffer_Resize) bytes tf = Reserve_f 1 tf"
    by (simp add: FixedSizeBinaryBuilder_Append_def split: prod.splits)
  have c13: "Reserve_f 1 tf = (OK, sf) \<and>
    byte_width_m sf + int (length (buffer_bytes (byte_builder_m sf))) \<le>
      buffer_capacity (byte_builder_m sf) \<longrightarrow>
      FixedSizeBinaryBuilder_Append Reserve_f (BufferBuilder_Append buffer_Resize) bytes tf =
        (OK, (UnsafeAppendToBitmap True sf)
               \<lparr>byte_builder_m := (byte_builder_m sf)
                  \<lparr>buffer_bytes := buffer_bytes (byte_builder_m sf) @
                                    take (nat (byte_width_m sf)) bytes\<rparr>\<rparr>)"
    by (simp add: FixedSizeBinaryBuilder_Append_def BufferBuilder_Append_def
        UnsafeAppendToBitmap_def Let_def)
  have c14: "pending_pos_m ta + 1 < pending_size_m \<longrightarrow>
      fst (AdaptiveInt_call CommitPendingData c ta) = OK"
    by (simp add: AdaptiveInt_call_no_commit)
  have c15: "(\<forall>s. fst (CommitPendingData s) = OK) \<longrightarrow>
      fst (AdaptiveInt_call CommitPendingData c ta) = OK"
    by (cases c)
      (simp_all add: AdaptiveIntBuilder_Append_def AdaptiveUIntBuilder_Append_def
        AdaptiveIntBuilderBase_AppendNull_def Let_def)
  have c16: "fst (CommitPendingData ta) \<noteq> OK \<longrightarrow>
      AdaptiveIntBuilderBase_AppendNulls CommitPendingData Reserve_a valid_bytes n ta =
        CommitPendingData ta"
    by (simp add: AdaptiveIntBuilderBase_AppendNulls_def split: prod.splits)
  have c17: "CommitPendingData ta = (OK, sa) \<longrightarrow>
      error_only_from (Reserve_a n sa)
        (AdaptiveIntBuilderBase_AppendNulls CommitPendingData Reserve_a valid_bytes n ta)"
    by (simp add: error_only_from_def AdaptiveIntBuilderBase_AppendNulls_def Let_def
        split: prod.splits)
  show ?thesis
    by (intro conjI) (fact c1 c2 c3 c4 c5 c6 c7 c8 c9 c10 c11 c12 c13 c14 c15 c16 c17)+
qed

theorem fallible_append_error_state_witness:
  "fst (ArrayBuilder_Reserve realloc_fails 100 example_AdaptiveIntBuilder) =
     OutOfMemory ''malloc failed'' \<and>
   snd (ArrayBuilder_Reserve realloc_fails 100 example_AdaptiveIntBuilder) =
     example_AdaptiveIntBuilder \<and>
   AdaptiveIntBuilderBase_AppendNulls (\<lambda>s. (OK, s)) (ArrayBuilder_Reserve realloc_fails)
     None 100 example_AdaptiveIntBuilder =
     (OutOfMemory ''malloc failed'', example_AdaptiveIntBuilder) \<and>
   AdaptiveIntBuilderBase_AppendNulls (\<lambda>s. (OutOfMemory ''malloc failed'', s)) (ArrayBuilder_Reserve realloc_fails)
     None 1 example_AdaptiveIntBuilder =
     (OutOfMemory ''malloc failed'', example_AdaptiveIntBuilder) \<and>
   pending_pos_m example_AdaptiveIntBuilder + 1 < pending_size_m \<and>
   fst (AdaptiveInt_call (\<lambda>s. (OutOfMemory ''malloc failed'', s)) (UInt_Append 5)
          example_AdaptiveIntBuilder) = OK \<and>
   fst (AdaptiveInt_call (\<lambda>s. (OK, s)) Int_AppendNull
          (example_AdaptiveIntBuilder\<lparr>pending_pos_m := 1023\<rparr>)) = OK \<and>
   StructBuilder_AppendValues (ArrayBuilder_Reserve realloc_fails) 100 None
     example_ArrayBuilder = (OutOfMemory ''malloc failed'', example_ArrayBuilder) \<and>
   fst (StructBuilder_Append (ArrayBuilder_Reserve realloc_fails) True example_ArrayBuilder) =
     OK \<and>
   BooleanBuilder_AppendNulls (ArrayBuilder_Reserve realloc_fails) None 100
     example_BooleanBuilder = (OutOfMemory ''malloc failed'', example_BooleanBuilder) \<and>
   FixedSizeBinaryBuilder_Append realloc_fails (BufferBuilder_Append realloc_fails) [1, 2, 3, 4]
     example_FixedSizeBinaryBuilder =
     (OutOfMemory ''malloc failed'', example_FixedSizeBinaryBuilder) \<and>
   FixedSizeBinaryBuilder_Append (\<lambda>n s. (OK, s)) (BufferBuilder_Append realloc_fails) [1, 2, 3, 4]
     example_FixedSizeBinaryBuilder =
     (OK, \<lparr>null_bitmap_data_m = [1, 0, 0, 0], null_count_m = 0, length_m = 1, capacity_m = 32,
           byte_width_m = 4,
           byte_builder_m = \<lparr>buffer_bytes = [1, 2, 3, 4], buffer_capacity = 128\<rparr>\<rparr>)"
proof -
  have h: "fst (ArrayBuilder_Reserve realloc_fails 100 example_AdaptiveIntBuilder) =
     OutOfMemory ''malloc failed''"
    "pending_pos_m example_AdaptiveIntBuilder + 1 < pending_size_m"
    "byte_width_m example_FixedSizeBinaryBuilder +
       int (length (buffer_bytes (byte_builder_m example_FixedSizeBinaryBuilder))) \<le>
     buffer_capacity (byte_builder_m example_FixedSizeBinaryBuilder)"
    "fst (realloc_fails (1 :: int) example_FixedSizeBinaryBuilder) \<noteq> OK"
    "realloc_fails (1 :: int) example_FixedSizeBinaryBuilder =
       (OutOfMemory ''malloc failed'', example_FixedSizeBinaryBuilder)"
    by code_simp+
  have e: "(UnsafeAppendToBitmap True example_FixedSizeBinaryBuilder)
               \<lparr>byte_builder_m := (byte_builder_m example_FixedSizeBinaryBuilder)
                  \<lparr>buffer_bytes := buffer_bytes (byte_builder_m example_FixedSizeBinaryBuilder) @
                      take (nat (byte_width_m example_FixedSizeBinaryBuilder)) [1, 2, 3, 4]\<rparr>\<rparr> =
       \<lparr>null_bitmap_data_m = [1, 0, 0, 0], null_count_m = 0, length_m = 1, capacity_m = 32,
           byte_width_m = 4,
           byte_builder_m = \<lparr>buffer_bytes = [1, 2, 3, 4], buffer_capacity = 128\<rparr>\<rparr>"
    by code_simp
  have ne: "OutOfMemory ''malloc failed'' \<noteq> OK"
    by simp
  note a = fallible_append_error_state
    [where t = example_AdaptiveIntBuilder and n = 100 and realloc = realloc_fails
       and ta = example_AdaptiveIntBuilder and sa = example_AdaptiveIntBuilder
       and CommitPendingData = "\<lambda>s. (OK, s)"
       and Reserve_a = "ArrayBuilder_Reserve realloc_fails" and valid_bytes = None
       and tf = example_FixedSizeBinaryBuilder and sf = example_FixedSizeBinaryBuilder
       and Reserve_f = "\<lambda>n s. (OK, s)" and buffer_Resize = realloc_fails
       and bytes = "[1, 2, 3, 4]"]
  note b = fallible_append_error_state
    [where ta = example_AdaptiveIntBuilder and n = 1
       and CommitPendingData = "\<lambda>s. (OutOfMemory ''malloc failed'', s)" and c = "UInt_Append 5"
       and Reserve_a = "ArrayBuilder_Reserve realloc_fails" and valid_bytes = None
       and tf = example_FixedSizeBinaryBuilder
       and Reserve_f = realloc_fails and buffer_Resize = realloc_fails
       and bytes = "[1, 2, 3, 4]"]
  have r1: "snd (ArrayBuilder_Reserve realloc_fails 100 example_AdaptiveIntBuilder) =
     example_AdaptiveIntBuilder"
    using a h(1) ne by simp
  have r2: "AdaptiveIntBuilderBase_AppendNulls (\<lambda>s. (OK, s)) (ArrayBuilder_Reserve realloc_fails)
     None 100 example_AdaptiveIntBuilder =
     ArrayBuilder_Reserve realloc_fails 100 example_AdaptiveIntBuilder"
    using a h(1) ne by (simp add: error_only_from_def)
  have r3: "AdaptiveIntBuilderBase_AppendNulls (\<lambda>s. (OutOfMemory ''malloc failed'', s)) (ArrayBuilder_Reserve realloc_fails)
     None 1 example_AdaptiveIntBuilder =
     (OutOfMemory ''malloc failed'', example_AdaptiveIntBuilder)"
  proof -
    from b have "fst (OutOfMemory ''malloc failed'', example_AdaptiveIntBuilder) \<noteq> OK \<longrightarrow>
      AdaptiveIntBuilderBase_AppendNulls (\<lambda>s. (OutOfMemory ''malloc failed'', s))
        (ArrayBuilder_Reserve realloc_fails) None 1 example_AdaptiveIntBuilder =
      (OutOfMemory ''malloc failed'', example_AdaptiveIntBuilder)"
      by blast
    then show ?thesis
      by simp
  qed
  have r4: "fst (AdaptiveInt_call (\<lambda>s. (OutOfMemory ''malloc failed'', s)) (UInt_Append 5) example_AdaptiveIntBuilder) = OK"
    using b h(2) by blast
  have r5: "FixedSizeBinaryBuilder_Append realloc_fails (BufferBuilder_Append realloc_fails) [1, 2, 3, 4]
     example_FixedSizeBinaryBuilder = realloc_fails (1 :: int) example_FixedSizeBinaryBuilder"
    using b h(4) by blast
  have r6: "FixedSizeBinaryBuilder_Append (\<lambda>n s. (OK, s)) (BufferBuilder_Append realloc_fails) [1, 2, 3, 4]
     example_FixedSizeBinaryBuilder =
     (OK, (UnsafeAppendToBitmap True example_FixedSizeBinaryBuilder)
               \<lparr>byte_builder_m := (byte_builder_m example_FixedSizeBinaryBuilder)
                  \<lparr>buffer_bytes := buffer_bytes (byte_builder_m example_FixedSizeBinaryBuilder) @
                      take (nat (byte_width_m example_FixedSizeBinaryBuilder)) [1, 2, 3, 4]\<rparr>\<rparr>)"
    using a h(3) by blast
  have p: "ArrayBuilder_Reserve realloc_fails 100 example_AdaptiveIntBuilder =
     (OutOfMemory ''malloc failed'', example_AdaptiveIntBuilder)"
    using h(1) r1 by (simp add: prod_eq_iff)
  have r7: "fst (AdaptiveInt_call (\<lambda>s. (OK, s)) Int_AppendNull
          (example_AdaptiveIntBuilder\<lparr>pending_pos_m := 1023\<rparr>)) = OK"
    using fallible_append_error_state
      [where CommitPendingData = "\<lambda>s. (OK, s)" and c = Int_AppendNull
         and ta = "example_AdaptiveIntBuilder\<lparr>pending_pos_m := 1023\<rparr>",
       THEN conjunct2, THEN conjunct2, THEN conjunct2, THEN conjunct2, THEN conjunct2,
       THEN conjunct2, THEN conjunct2, THEN conjunct2, THEN conjunct2, THEN conjunct2,
       THEN conjunct2, THEN conjunct2, THEN conjunct2, THEN conjunct2, THEN conjunct1]
    by simp
  have g: "ArrayBuilder_Reserve realloc_fails 100 example_ArrayBuilder =
       (OutOfMemory ''malloc failed'', example_ArrayBuilder)"
    "ArrayBuilder_Reserve realloc_fails 1 example_ArrayBuilder = (OK, example_ArrayBuilder)"
    "ArrayBuilder_Reserve realloc_fails 100 example_BooleanBuilder =
       (OutOfMemory ''malloc failed'', example_BooleanBuilder)"
    by code_simp+
  note d = fallible_append_error_state
    [where t = example_ArrayBuilder and Reserve = "ArrayBuilder_Reserve realloc_fails"
       and n = 100 and valid_bytes = None and b = True
       and tb = example_BooleanBuilder and Reserve_b = "ArrayBuilder_Reserve realloc_fails",
     unfolded g]
  from d have r8: "error_only_from (OutOfMemory ''malloc failed'', example_ArrayBuilder)
      (StructBuilder_AppendValues (ArrayBuilder_Reserve realloc_fails) 100 None
         example_ArrayBuilder)"
    by blast
  from d have r9: "error_only_from (OK, example_ArrayBuilder)
      (StructBuilder_Append (ArrayBuilder_Reserve realloc_fails) True example_ArrayBuilder)"
    by blast
  from d have r10: "error_only_from (OutOfMemory ''malloc failed'', example_BooleanBuilder)
      (BooleanBuilder_AppendNulls (ArrayBuilder_Reserve realloc_fails) None 100
         example_BooleanBuilder)"
    by blast
  have r8': "StructBuilder_AppendValues (ArrayBuilder_Reserve realloc_fails) 100 None
     example_ArrayBuilder = (OutOfMemory ''malloc failed'', example_ArrayBuilder)"
    using r8 by (simp add: error_only_from_def)
  have r9': "fst (StructBuilder_Append (ArrayBuilder_Reserve realloc_fails) True
     example_ArrayBuilder) = OK"
    using r9 by (simp add: error_only_from_def)
  have r10': "BooleanBuilder_AppendNulls (ArrayBuilder_Reserve realloc_fails) None 100
     example_BooleanBuilder = (OutOfMemory ''malloc failed'', example_BooleanBuilder)"
    using r10 by (simp add: error_only_from_def)
  show ?thesis
    unfolding r2 r3 r5 r6 r8' r10' e h(5) p using h(2) r4 r7 r9' by simp
qed

end
